theory Spec2Isabelle
  imports Complex_Main "HOL-Library.Sublist" "HOL-Library.Multiset"
begin

section \<open>Conventions of the embedding\<close>

text \<open>
  The two analysers of the repository, \<^verbatim>\<open>check_audio_quality.py\<close> and
  \<^verbatim>\<open>validate_audio_pronunciations.py\<close>, are embedded function by function.

  \<^item> Python floats are idealised as \<^typ>\<open>real\<close>: no rounding error, no NaN, no infinity.
    The one place where the error of a double decides a stored digit is \<^verbatim>\<open>round\<close>; there
    the direction taken at an exact decimal tie is an input of the model (see \<open>py_round\<close>).
  \<^item> Python strings are \<^typ>\<open>string\<close>; a \<^typ>\<open>char\<close> stands for the Unicode code
    point of the same number, so the strings covered are those over U+0000 to U+00FF.
    On that range \<^verbatim>\<open>str.lower\<close> maps single characters to single characters.
  \<^item> Calls into libraries (audio decoding, the speech model, the file system, the random
    sampler) are inputs of the model; a call that raises is the value \<open>None\<close>.
\<close>

subsection \<open>Python built-ins\<close>

text \<open>
  \<^verbatim>\<open>round(x, n)\<close> for a float: a nearest multiple of \<open>10\<^sup>-\<^sup>n\<close>. When the exact value \<open>x\<close>
  lies halfway between two multiples, the double that the program holds is in general a
  little above or a little below it, and \<^verbatim>\<open>round\<close> follows the double: which neighbour is
  stored cannot be read off the exact value. The argument \<open>up\<close> says which one it is for
  this call; it matters only at such a tie.
\<close>

definition py_round :: "bool \<Rightarrow> real \<Rightarrow> nat \<Rightarrow> real" where
  "py_round up x n =
     (let s = x * 10 ^ n; f = \<lfloor>s\<rfloor>; d = s - of_int f
      in of_int (if d < 1 / 2 then f else if 1 / 2 < d then f + 1
                 else if up then f + 1 else f) / 10 ^ n)"

text \<open>For each rounded field, by its name, the direction of \<^verbatim>\<open>round\<close> at a tie.\<close>

type_synonym ties = "string \<Rightarrow> bool"

text \<open>The choice used in the sample runs below: the lower neighbour at every tie (no
  rounding of those runs meets one).\<close>

definition ties_down :: ties where
  "ties_down = (\<lambda>field. False)"

text \<open>\<^verbatim>\<open>int(x)\<close> for a float truncates towards zero.\<close>

definition py_int :: "real \<Rightarrow> int" where
  "py_int x = (if 0 \<le> x then \<lfloor>x\<rfloor> else \<lceil>x\<rceil>)"

section \<open>Signal quality analyser (\<^verbatim>\<open>check_audio_quality.py\<close>)\<close>

subsection \<open>Data\<close>

text \<open>
  The array returned by \<^verbatim>\<open>librosa.load(..., sr=None, mono=False)\<close>: one-dimensional for a
  mono file, otherwise one row per channel.
\<close>

datatype ndarray = Arr1 "real list" | Arr2 "real list list"

text \<open>
  What lines 143 to 154 of \<^verbatim>\<open>check_file\<close> obtain from the libraries for one file: the
  decoded samples and the native sample rate; with them, the direction of \<^verbatim>\<open>round\<close> at a
  tie for each of the four rounded fields of this file's result. The identity fields of the result (paths,
  engine, variant, letter, channel count, bit depth) are computed from the file name and
  the container header only; they play no part in the metrics and are left out of the
  record below.
\<close>

record Clip =
  audio :: ndarray
  sr :: int
  tie_up :: ties

record AudioQualityResult =
  duration_sec :: real
  sample_rate :: int
  rms_level :: real
  peak_level :: real
  is_clipping :: bool
  is_too_quiet :: bool
  has_silence :: bool
  quality_score :: real
  issues :: "string list"

subsection \<open>Thresholds (\<^verbatim>\<open>__init__\<close>, lines 59 to 64)\<close>

definition min_duration :: real where "min_duration = 0.3"
definition max_duration :: real where "max_duration = 3.0"
definition min_rms :: real where "min_rms = 0.01"
definition clipping_threshold :: real where "clipping_threshold = 0.99"
definition silence_threshold :: real where "silence_threshold = 0.001"
definition silence_ratio_threshold :: real where "silence_ratio_threshold = 0.7"

subsection \<open>Metrics\<close>

text \<open>\<^verbatim>\<open>np.mean(audio, axis=0)\<close> when \<^verbatim>\<open>audio.ndim > 1\<close>: the mean of every column.\<close>

fun to_mono :: "ndarray \<Rightarrow> real list" where
  "to_mono (Arr1 xs) = xs"
| "to_mono (Arr2 rows) = map (\<lambda>col. sum_list col / real (length col)) (transpose rows)"

definition np_mean :: "real list \<Rightarrow> real" where
  "np_mean xs = sum_list xs / real (length xs)"

definition clip_duration :: "Clip \<Rightarrow> real" where
  "clip_duration c = real (length (to_mono (audio c))) / real_of_int (sr c)"

definition clip_rms :: "Clip \<Rightarrow> real" where
  "clip_rms c = sqrt (np_mean (map (\<lambda>x. x ^ 2) (to_mono (audio c))))"

definition clip_peak :: "Clip \<Rightarrow> real" where
  "clip_peak c = Max (set (map abs (to_mono (audio c))))"

definition clip_silence_ratio :: "Clip \<Rightarrow> real" where
  "clip_silence_ratio c =
     real (length (filter (\<lambda>x. \<bar>x\<bar> < silence_threshold) (to_mono (audio c))))
       / real (length (to_mono (audio c)))"

subsection \<open>\<^verbatim>\<open>check_file\<close>\<close>

text \<open>The issue list is built by appending, in the order of lines 168 to 186.\<close>

definition detect_issues :: "real \<Rightarrow> real \<Rightarrow> real \<Rightarrow> real \<Rightarrow> string list" where
  "detect_issues duration rms peak silence_ratio =
     (if peak \<ge> clipping_threshold then [''clipping''] else [])
     @ (if rms < min_rms then [''too_quiet''] else [])
     @ (if duration < min_duration then [''too_short'']
        else if duration > max_duration then [''too_long''] else [])
     @ (if silence_ratio > silence_ratio_threshold then [''mostly_silent''] else [])"

text \<open>Lines 189 to 192.\<close>

definition score_of :: "string list \<Rightarrow> real \<Rightarrow> real" where
  "score_of iss duration =
     max 0 (min 100 (100 - real (length iss) * 15 - \<bar>duration - 1\<bar> * 10))"

text \<open>
  \<^verbatim>\<open>check_file\<close>. The argument is \<open>None\<close> when loading the file or reading its header
  raises. Inside the \<^verbatim>\<open>try\<close> block a zero sample rate raises \<^verbatim>\<open>ZeroDivisionError\<close> at
  line 161 and an empty signal raises \<^verbatim>\<open>ValueError\<close> in \<^verbatim>\<open>np.max\<close> at line 163; every
  exception makes the function return \<^verbatim>\<open>None\<close> (line 215).
\<close>

definition check_file :: "Clip option \<Rightarrow> AudioQualityResult option" where
  "check_file loaded =
     (case loaded of
        None \<Rightarrow> None
      | Some c \<Rightarrow>
          if sr c = 0 \<or> to_mono (audio c) = [] then None
          else
            let duration = clip_duration c;
                rms = clip_rms c;
                peak = clip_peak c;
                silence_ratio = clip_silence_ratio c;
                iss = detect_issues duration rms peak silence_ratio
            in Some \<lparr> duration_sec = py_round (tie_up c ''duration_sec'') duration 3,
                      sample_rate = sr c,
                      rms_level = py_round (tie_up c ''rms_level'') rms 4,
                      peak_level = py_round (tie_up c ''peak_level'') peak 4,
                      is_clipping = (peak \<ge> clipping_threshold),
                      is_too_quiet = (rms < min_rms),
                      has_silence = (silence_ratio > silence_ratio_threshold),
                      quality_score =
                        py_round (tie_up c ''quality_score'') (score_of iss duration) 2,
                      issues = iss \<rparr>)"

subsection \<open>Batch run and summary\<close>

text \<open>
  What \<^verbatim>\<open>check_all_files\<close> and \<^verbatim>\<open>main\<close> read from outside: whether the audio libraries
  import (\<^verbatim>\<open>self.working\<close>), whether the base directory exists, the sorted \<^verbatim>\<open>*.wav\<close> files
  below it, each given by what loading it yields (\<open>None\<close> when that raises), whether
  the report file can be written, and the direction of \<^verbatim>\<open>round\<close> at a tie for each rounded
  entry of the summary.
\<close>

record QWorld =
  libs_available :: bool
  base_dir_exists :: bool
  wav_clips :: "Clip option list"
  report_file_writable :: bool
  summary_tie_up :: ties

text \<open>\<^verbatim>\<open>issues_count[issue] += 1\<close> on a \<^verbatim>\<open>defaultdict(int)\<close>, kept in insertion order.\<close>

fun count_issue :: "string \<Rightarrow> (string \<times> nat) list \<Rightarrow> (string \<times> nat) list" where
  "count_issue issue [] = [(issue, 1)]"
| "count_issue issue ((k, n) # d) =
     (if k = issue then (k, n + 1) # d else (k, n) # count_issue issue d)"

text \<open>The loop of lines 108 to 118.\<close>

fun analyze_loop ::
    "Clip option list \<Rightarrow> AudioQualityResult list \<Rightarrow> (string \<times> nat) list
       \<Rightarrow> AudioQualityResult list \<times> (string \<times> nat) list" where
  "analyze_loop [] results issues_count = (results, issues_count)"
| "analyze_loop (audio_file # rest) results issues_count =
     (case check_file audio_file of
        None \<Rightarrow> analyze_loop rest results issues_count
      | Some result \<Rightarrow>
          analyze_loop rest (results @ [result]) (fold count_issue (issues result) issues_count))"

text \<open>
  The dictionary built by \<^verbatim>\<open>_generate_summary\<close>, lines 230 to 249; the nested blocks
  \<^verbatim>\<open>duration\<close> and \<^verbatim>\<open>rms_level\<close> are flattened.
\<close>

record Summary =
  total_files :: nat
  clean_files :: nat
  files_with_issues :: nat
  quality_rate :: real
  average_quality_score :: real
  duration_min :: real
  duration_max :: real
  duration_avg :: real
  duration_median :: real
  rms_level_min :: real
  rms_level_max :: real
  rms_level_avg :: real
  sample_rates :: "int set"
  issues_found :: bool

text \<open>\<^verbatim>\<open>_generate_summary\<close>, lines 217 to 276; \<open>None\<close> is the empty dictionary of line 221.
  The first argument gives the direction of \<^verbatim>\<open>round\<close> at a tie for each rounded entry.\<close>

definition generate_summary ::
    "ties \<Rightarrow> AudioQualityResult list \<Rightarrow> (string \<times> nat) list \<Rightarrow> Summary option" where
  "generate_summary up results issues_count =
     (if results = [] then None
      else
        let durations = map duration_sec results;
            rms_levels = map rms_level results;
            quality_scores = map quality_score results;
            with_issues = length (filter (\<lambda>r. issues r \<noteq> []) results);
            clean = length results - with_issues
        in Some \<lparr> total_files = length results,
                  clean_files = clean,
                  files_with_issues = with_issues,
                  quality_rate =
                    py_round (up ''quality_rate'') (100 * real clean / real (length results)) 2,
                  average_quality_score =
                    py_round (up ''average_quality_score'')
                      (sum_list quality_scores / real (length quality_scores)) 2,
                  duration_min = py_round (up ''duration.min'') (Min (set durations)) 3,
                  duration_max = py_round (up ''duration.max'') (Max (set durations)) 3,
                  duration_avg =
                    py_round (up ''duration.avg'') (sum_list durations / real (length durations)) 3,
                  duration_median =
                    py_round (up ''duration.median'')
                      (sort durations ! (length durations div 2)) 3,
                  rms_level_min = py_round (up ''rms_level.min'') (Min (set rms_levels)) 4,
                  rms_level_max = py_round (up ''rms_level.max'') (Max (set rms_levels)) 4,
                  rms_level_avg =
                    py_round (up ''rms_level.avg'')
                      (sum_list rms_levels / real (length rms_levels)) 4,
                  sample_rates = set (map sample_rate results),
                  issues_found = (length issues_count > 0) \<rparr>)"

record QReport =
  summary :: "Summary option"
  all_results :: "AudioQualityResult list"
  issues_by_type :: "(string \<times> nat) list"

datatype io_error = OSError

text \<open>
  \<^verbatim>\<open>check_all_files\<close>, lines 79 to 136; \<open>Inr None\<close> is the empty dictionary returned at
  lines 84, 88 and 103, \<open>Inl\<close> an exception raised while the report is written.
\<close>

definition check_all_files :: "QWorld \<Rightarrow> io_error + QReport option" where
  "check_all_files qw =
     (if \<not> libs_available qw then Inr None
      else if \<not> base_dir_exists qw then Inr None
      else if length (wav_clips qw) = 0 then Inr None
      else
        case analyze_loop (wav_clips qw) [] [] of
          (results, issues_count) \<Rightarrow>
            let report = \<lparr> summary = generate_summary (summary_tie_up qw) results issues_count,
                           all_results = results,
                           issues_by_type = issues_count \<rparr>
            in if report_file_writable qw then Inr (Some report) else Inl OSError)"

text \<open>\<^verbatim>\<open>main\<close> of the quality checker, lines 279 to 303: the status passed to
  \<^verbatim>\<open>sys.exit\<close>.\<close>

definition quality_main :: "QWorld \<Rightarrow> nat" where
  "quality_main qw =
     (if \<not> libs_available qw then 1
      else
        case check_all_files qw of
          Inl e \<Rightarrow> 1
        | Inr None \<Rightarrow> 0
        | Inr (Some report) \<Rightarrow>
            (case summary report of
               None \<Rightarrow> 0
             | Some sm \<Rightarrow> if issues_found sm then 1 else 0))"

section \<open>Pronunciation validator (\<^verbatim>\<open>validate_audio_pronunciations.py\<close>)\<close>

subsection \<open>Python strings\<close>

text \<open>
  Character classes on U+0000 to U+00FF. \<^verbatim>\<open>str.isspace\<close>, the class \<^verbatim>\<open>\s\<close> of the module
  \<^verbatim>\<open>re\<close> and the characters removed by \<^verbatim>\<open>str.strip()\<close> coincide.
\<close>

definition py_isspace :: "char \<Rightarrow> bool" where
  "py_isspace c =
     (let n = (of_char c :: nat)
      in (9 \<le> n \<and> n \<le> 13) \<or> (28 \<le> n \<and> n \<le> 32) \<or> n = 133 \<or> n = 160)"

definition py_isalnum :: "char \<Rightarrow> bool" where
  "py_isalnum c =
     (let n = (of_char c :: nat)
      in (48 \<le> n \<and> n \<le> 57) \<or> (65 \<le> n \<and> n \<le> 90) \<or> (97 \<le> n \<and> n \<le> 122)
         \<or> n = 170 \<or> n = 178 \<or> n = 179 \<or> n = 181 \<or> n = 185 \<or> n = 186
         \<or> (188 \<le> n \<and> n \<le> 190) \<or> (192 \<le> n \<and> n \<le> 214)
         \<or> (216 \<le> n \<and> n \<le> 246) \<or> (248 \<le> n \<and> n \<le> 255))"

text \<open>The class \<^verbatim>\<open>\w\<close> of \<^verbatim>\<open>re\<close> on a \<^verbatim>\<open>str\<close>: alphanumeric, or the underscore.\<close>

definition re_word :: "char \<Rightarrow> bool" where
  "re_word c = (py_isalnum c \<or> c = CHR ''_'')"

definition lower_char :: "char \<Rightarrow> char" where
  "lower_char c =
     (let n = (of_char c :: nat)
      in if (65 \<le> n \<and> n \<le> 90) \<or> (192 \<le> n \<and> n \<le> 214) \<or> (216 \<le> n \<and> n \<le> 222)
         then char_of (n + 32) else c)"

definition py_lower :: "string \<Rightarrow> string" where
  "py_lower s = map lower_char s"

text \<open>\<^verbatim>\<open>str.upper\<close>, used by the source only on a character matched by \<^verbatim>\<open>[a-z]\<close>.\<close>

definition is_az :: "char \<Rightarrow> bool" where
  "is_az c = (let n = (of_char c :: nat) in 97 \<le> n \<and> n \<le> 122)"

definition upper_az :: "char \<Rightarrow> char" where
  "upper_az c = (if is_az c then char_of ((of_char c :: nat) - 32) else c)"

definition py_strip :: "string \<Rightarrow> string" where
  "py_strip s = rev (dropWhile py_isspace (rev (dropWhile py_isspace s)))"

text \<open>\<^verbatim>\<open>sep.join(parts)\<close>.\<close>

fun py_join :: "string \<Rightarrow> string list \<Rightarrow> string" where
  "py_join sep [] = []"
| "py_join sep [x] = x"
| "py_join sep (x # y # ys) = x @ sep @ py_join sep (y # ys)"

text \<open>\<^verbatim>\<open>s.split(c)\<close> for a single separator character.\<close>

fun py_split :: "char \<Rightarrow> string \<Rightarrow> string list" where
  "py_split c [] = [[]]"
| "py_split c (x # xs) =
     (if x = c then [] # py_split c xs
      else (case py_split c xs of p # ps \<Rightarrow> (x # p) # ps | [] \<Rightarrow> [[x]]))"

text \<open>\<^verbatim>\<open>a in b\<close> for two strings: \<open>a\<close> occurs in \<open>b\<close> as a contiguous block.\<close>

fun py_in :: "string \<Rightarrow> string \<Rightarrow> bool" where
  "py_in a [] = (a = [])"
| "py_in a (y # ys) = (prefix a (y # ys) \<or> py_in a ys)"

text \<open>\<^verbatim>\<open>re.sub(r'[^\w\s]', '', s)\<close>: every character outside both classes is deleted.\<close>

definition re_sub_nonword :: "string \<Rightarrow> string" where
  "re_sub_nonword s = filter (\<lambda>c. re_word c \<or> py_isspace c) s"

text \<open>\<^verbatim>\<open>d.get(k, default)\<close> on a dictionary written as an association list.\<close>

definition dict_get :: "('k \<times> 'v) list \<Rightarrow> 'k \<Rightarrow> 'v \<Rightarrow> 'v" where
  "dict_get d k dflt = (case map_of d k of Some v \<Rightarrow> v | None \<Rightarrow> dflt)"

subsection \<open>Paths (\<^verbatim>\<open>pathlib\<close>, POSIX flavour)\<close>

text \<open>
  \<^verbatim>\<open>Path(p).name\<close>: the last component of the path, where empty components and \<^verbatim>\<open>.\<close>
  are dropped; the empty string when there is none.
\<close>

definition path_name :: "string \<Rightarrow> string" where
  "path_name p =
     (case rev (filter (\<lambda>part. part \<noteq> [] \<and> part \<noteq> ''.'') (py_split CHR ''/'' p)) of
        [] \<Rightarrow> []
      | part # _ \<Rightarrow> part)"

text \<open>\<^verbatim>\<open>s.rfind(c)\<close>, \<open>None\<close> for \<^verbatim>\<open>-1\<close>.\<close>

definition py_rfind :: "char \<Rightarrow> string \<Rightarrow> nat option" where
  "py_rfind c s =
     (if c \<in> set s then Some (length s - 1 - length (takeWhile (\<lambda>x. x \<noteq> c) (rev s)))
      else None)"

text \<open>\<^verbatim>\<open>Path(p).stem\<close>: the name without its last suffix.\<close>

definition path_stem :: "string \<Rightarrow> string" where
  "path_stem p =
     (let name = path_name p
      in case py_rfind CHR ''.'' name of
           None \<Rightarrow> name
         | Some i \<Rightarrow> if 0 < i \<and> i < length name - 1 then take i name else name)"

subsection \<open>Letter table and matching\<close>

text \<open>\<^verbatim>\<open>self.letter_patterns\<close>, lines 60 to 87.\<close>

definition letter_patterns :: "(string \<times> string list) list" where
  "letter_patterns =
     [(''A'', [''a'', ''ay'', ''eh'', ''aye'']),
      (''B'', [''b'', ''be'', ''bee'']),
      (''C'', [''c'', ''see'', ''sea'']),
      (''D'', [''d'', ''de'', ''dee'']),
      (''E'', [''e'', ''ee'', ''ea'']),
      (''F'', [''f'', ''ef'', ''eff'']),
      (''G'', [''g'', ''ge'', ''gee'', ''jee'']),
      (''H'', [''h'', ''aych'', ''aitch'', ''ache'']),
      (''I'', [''i'', ''eye'', ''aye'']),
      (''J'', [''j'', ''jay'', ''jey'']),
      (''K'', [''k'', ''kay'', ''kaye'']),
      (''L'', [''l'', ''el'', ''ell'']),
      (''M'', [''m'', ''em'', ''emm'']),
      (''N'', [''n'', ''en'', ''enn'']),
      (''O'', [''o'', ''oh'', ''owe'']),
      (''P'', [''p'', ''pe'', ''pee'']),
      (''Q'', [''q'', ''que'', ''queue'', ''cue'']),
      (''R'', [''r'', ''ar'', ''arr'']),
      (''S'', [''s'', ''es'', ''ess'']),
      (''T'', [''t'', ''te'', ''tee'']),
      (''U'', [''u'', ''you'', ''yoo'']),
      (''V'', [''v'', ''ve'', ''vee'']),
      (''W'', [''w'', ''double u'', ''double you'', ''dub'']),
      (''X'', [''x'', ''ex'', ''eks'']),
      (''Y'', [''y'', ''why'', ''wy'']),
      (''Z'', [''z'', ''ze'', ''zee'', ''zed''])]"

text \<open>\<^verbatim>\<open>extract_letter_from_filename\<close>, lines 110 to 119.

  \<^verbatim>\<open>re.search(r'_([a-z])$', s)\<close>: \<^verbatim>\<open>$\<close> matches at the end of the string and also just
  before a newline that is the last character. The result is group 1, if there is a match.\<close>

definition newline :: char where
  "newline = CHR 0x0A"

definition re_search_letter :: "string \<Rightarrow> char option" where
  "re_search_letter s =
     (case rev s of
        c # u # _ \<Rightarrow>
          if u = CHR ''_'' \<and> is_az c then Some c
          else (case rev s of
                  n # c' # u' # _ \<Rightarrow>
                    if n = newline \<and> u' = CHR ''_'' \<and> is_az c' then Some c' else None
                | _ \<Rightarrow> None)
      | _ \<Rightarrow> None)"

definition extract_letter_from_filename :: "string \<Rightarrow> string option" where
  "extract_letter_from_filename filepath =
     (let filename = path_stem filepath
      in case re_search_letter (py_lower filename) of
           Some c \<Rightarrow> Some [upper_az c]
         | None \<Rightarrow> None)"

text \<open>The normalisation of line 195.\<close>

definition clean_transcription :: "string \<Rightarrow> string" where
  "clean_transcription transcribed = re_sub_nonword (py_strip (py_lower transcribed))"

text \<open>The loop of lines 201 to 203; \<open>True\<close> when it returns from inside.\<close>

fun pattern_loop :: "string list \<Rightarrow> string \<Rightarrow> bool" where
  "pattern_loop [] transcribed_clean = False"
| "pattern_loop (pattern # rest) transcribed_clean =
     (if py_in pattern transcribed_clean \<or> py_in transcribed_clean pattern then True
      else pattern_loop rest transcribed_clean)"

text \<open>\<^verbatim>\<open>matches_expected_letter\<close>, lines 180 to 209.\<close>

definition matches_expected_letter :: "string \<Rightarrow> string \<Rightarrow> bool" where
  "matches_expected_letter transcribed expected_letter =
     (if transcribed = [] then False
      else
        let transcribed_clean = clean_transcription transcribed;
            valid_patterns = dict_get letter_patterns expected_letter [py_lower expected_letter]
        in if pattern_loop valid_patterns transcribed_clean then True
           else if length transcribed_clean = 1 \<and> transcribed_clean = py_lower expected_letter
           then True
           else False)"

text \<open>The same function without the single-character check of lines 205 to 207.\<close>

definition matches_without_single_char :: "string \<Rightarrow> string \<Rightarrow> bool" where
  "matches_without_single_char transcribed expected_letter =
     (if transcribed = [] then False
      else
        let transcribed_clean = clean_transcription transcribed;
            valid_patterns = dict_get letter_patterns expected_letter [py_lower expected_letter]
        in if pattern_loop valid_patterns transcribed_clean then True
           else False)"

subsection \<open>The world outside the validator\<close>

text \<open>A segment yielded by the speech model: its text, and its average log-probability
  when the attribute exists (line 165).\<close>

record Segment =
  seg_text :: string
  avg_logprob :: "real option"

text \<open>
  What the validator reads from outside, per path:
  \<^item> \<open>wave_header\<close>: frame count and frame rate of the WAV header, \<open>None\<close> when
    \<^verbatim>\<open>wave.open\<close> raises;
  \<^item> \<open>whisper\<close>: the segments produced by \<^verbatim>\<open>self.model.transcribe\<close>, \<open>None\<close> when the
    call or the iteration over its result raises;
  \<^item> \<open>relative_to_base\<close>: \<^verbatim>\<open>Path(p).relative_to(self.base_dir)\<close>, \<open>None\<close> for
    \<^verbatim>\<open>ValueError\<close>;
  \<^item> \<open>model_loads\<close>: whether \<^verbatim>\<open>initialize_model\<close> succeeds;
  \<^item> \<open>root_exists\<close> and \<open>letter_wavs\<close>: whether the output directory exists, and for each
    letter the \<^verbatim>\<open>*.wav\<close> paths of its directory, \<open>None\<close> when that directory is missing;
  \<^item> \<open>random_sample\<close>: the choice made by \<^verbatim>\<open>random.sample(population, k)\<close>;
  \<^item> \<open>report_writable\<close>: whether the report file can be opened and written;
  \<^item> \<open>duration_tie_up\<close>: for each path, the direction of \<^verbatim>\<open>round\<close> at a tie when its
    duration is rounded (line 136).
\<close>

record World =
  wave_header :: "string \<Rightarrow> (int \<times> int) option"
  whisper :: "string \<Rightarrow> Segment list option"
  relative_to_base :: "string \<Rightarrow> string option"
  model_loads :: bool
  root_exists :: bool
  letter_wavs :: "char \<Rightarrow> string list option"
  random_sample :: "string list \<Rightarrow> nat \<Rightarrow> string list"
  report_writable :: bool
  duration_tie_up :: ties

subsection \<open>Per-file validation\<close>

text \<open>\<^verbatim>\<open>get_audio_duration\<close>, lines 121 to 139; a zero frame rate raises inside the
  \<^verbatim>\<open>try\<close> block.\<close>

definition get_audio_duration :: "World \<Rightarrow> string \<Rightarrow> real" where
  "get_audio_duration w audio_path =
     (case wave_header w audio_path of
        None \<Rightarrow> 0
      | Some (frames, rate) \<Rightarrow>
          if rate = 0 then 0
          else py_round (duration_tie_up w audio_path) (real_of_int frames / real_of_int rate) 3)"

text \<open>\<^verbatim>\<open>transcribe_audio\<close>, lines 141 to 178.\<close>

definition transcribe_audio :: "World \<Rightarrow> string \<Rightarrow> string \<times> real \<times> real" where
  "transcribe_audio w audio_path =
     (let duration = get_audio_duration w audio_path
      in case whisper w audio_path of
           None \<Rightarrow> ([], 0, duration)
         | Some segments \<Rightarrow>
             let texts = map (\<lambda>segment. py_strip (seg_text segment)) segments;
                 confidences =
                   map (\<lambda>segment. case avg_logprob segment of Some v \<Rightarrow> v | None \<Rightarrow> 0) segments;
                 transcribed_text = py_strip (py_join '' '' texts);
                 avg_confidence =
                   (if confidences \<noteq> [] then sum_list confidences / real (length confidences)
                    else 0);
                 confidence = min 1 (max 0 ((avg_confidence + 5) / 5))
             in (transcribed_text, confidence, duration))"

record ValidationResult =
  file_path :: string
  relative_path :: string
  expected_letter :: string
  transcribed_text :: string
  is_match :: bool
  confidence :: real
  audio_duration_seconds :: real
  error_type :: "string option"
  validation_score :: real

text \<open>
  \<^verbatim>\<open>validate_file\<close>, lines 211 to 268. The second component lists the paths handed to
  \<^verbatim>\<open>transcribe_audio\<close> during the call, in order.
\<close>

definition validate_file :: "World \<Rightarrow> string \<Rightarrow> ValidationResult \<times> string list" where
  "validate_file w audio_path =
     (let rel = (case relative_to_base w audio_path of Some r \<Rightarrow> r | None \<Rightarrow> audio_path)
      in case extract_letter_from_filename audio_path of
           None \<Rightarrow>
             (\<lparr> file_path = audio_path, relative_path = rel,
                expected_letter = ''UNKNOWN'', transcribed_text = [],
                is_match = False, confidence = 0, audio_duration_seconds = 0,
                error_type = Some ''invalid_filename'', validation_score = 0 \<rparr>, [])
         | Some letter \<Rightarrow>
             (case transcribe_audio w audio_path of
                (text_out, conf, duration) \<Rightarrow>
                  if text_out = [] then
                    (\<lparr> file_path = audio_path, relative_path = rel,
                       expected_letter = letter, transcribed_text = [],
                       is_match = False, confidence = 0, audio_duration_seconds = duration,
                       error_type = Some ''transcription_failed'', validation_score = 0 \<rparr>,
                     [audio_path])
                  else
                    let matching = matches_expected_letter text_out letter;
                        err = (if matching then None else Some ''pronunciation_mismatch'');
                        score = (if matching then 100 else conf * 100)
                    in (\<lparr> file_path = audio_path, relative_path = rel,
                          expected_letter = letter, transcribed_text = text_out,
                          is_match = matching, confidence = conf,
                          audio_duration_seconds = duration,
                          error_type = err, validation_score = score \<rparr>,
                        [audio_path])))"

subsection \<open>Batch validation\<close>

datatype py_error = ValueError

text \<open>One entry of \<^verbatim>\<open>letter_stats\<close>; a missing key reads as the all-zero entry
  (\<^verbatim>\<open>defaultdict\<close>, lines 307 to 312).\<close>

record LetterStats =
  total :: int
  validated :: int
  matched :: int
  failed :: int

definition letter_default :: LetterStats where
  "letter_default = \<lparr> total = 0, validated = 0, matched = 0, failed = 0 \<rparr>"

definition stats_of :: "(char \<rightharpoonup> LetterStats) \<Rightarrow> char \<Rightarrow> LetterStats" where
  "stats_of m letter = (case m letter of Some e \<Rightarrow> e | None \<Rightarrow> letter_default)"

text \<open>The local variables of \<^verbatim>\<open>validate_directory\<close> (lines 302 to 312), extended by
  \<^verbatim>\<open>self.validation_results\<close>.\<close>

record Counters =
  total_files :: int
  validated_files :: int
  matched_files :: int
  failed_files :: int
  letter_stats :: "char \<rightharpoonup> LetterStats"

record VState = Counters +
  validation_results :: "ValidationResult list"

text \<open>The dictionary \<^verbatim>\<open>stats\<close> of lines 372 to 381 (model size and device are
  constants of the run and left out).\<close>

record Stats = Counters +
  match_rate :: real

text \<open>The body of the loop over files, lines 341 to 356.\<close>

definition file_iteration :: "World \<Rightarrow> char \<Rightarrow> VState \<Rightarrow> string \<Rightarrow> VState" where
  "file_iteration w letter s wav_file =
     (let result = fst (validate_file w wav_file);
          s1 = s\<lparr> validation_results := validation_results s @ [result] \<rparr>;
          s2 = s1\<lparr> validated_files := validated_files s1 + 1 \<rparr>;
          e2 = stats_of (letter_stats s2) letter;
          s3 = s2\<lparr> letter_stats := (letter_stats s2)(letter \<mapsto> e2\<lparr> validated := validated e2 + 1 \<rparr>) \<rparr>;
          e3 = stats_of (letter_stats s3) letter
      in if is_match result then
           s3\<lparr> matched_files := matched_files s3 + 1,
               letter_stats := (letter_stats s3)(letter \<mapsto> e3\<lparr> matched := matched e3 + 1 \<rparr>) \<rparr>
         else
           s3\<lparr> failed_files := failed_files s3 + 1,
               letter_stats := (letter_stats s3)(letter \<mapsto> e3\<lparr> failed := failed e3 + 1 \<rparr>) \<rparr>)"

text \<open>The loop of line 340; it returns the state reached after each iteration, in order.\<close>

fun files_loop :: "World \<Rightarrow> char \<Rightarrow> VState \<Rightarrow> string list \<Rightarrow> VState list" where
  "files_loop w letter s [] = []"
| "files_loop w letter s (wav_file # rest) =
     (let s' = file_iteration w letter s wav_file in s' # files_loop w letter s' rest)"

text \<open>\<^verbatim>\<open>xs[:m]\<close>; a negative bound counts from the end.\<close>

definition py_slice_to :: "'a list \<Rightarrow> int \<Rightarrow> 'a list" where
  "py_slice_to xs m = (if 0 \<le> m then take (nat m) xs else take (length xs - nat (- m)) xs)"

text \<open>
  Lines 334 to 356, for the files kept after sampling and limiting: the entry
  \<^verbatim>\<open>total\<close> of the letter is set, then the files are validated. The result is the state
  after the last file together with the states reached after each file.
\<close>

definition validate_letter_files ::
    "World \<Rightarrow> char \<Rightarrow> VState \<Rightarrow> string list \<Rightarrow> VState \<times> VState list" where
  "validate_letter_files w letter s1 wav_files =
     (let e1 = stats_of (letter_stats s1) letter;
          s2 = s1\<lparr> letter_stats :=
                    (letter_stats s1)(letter \<mapsto> e1\<lparr> total := int (length wav_files) \<rparr>) \<rparr>;
          visited = files_loop w letter s2 wav_files
      in (last (s2 # visited), visited))"

text \<open>
  The body of the loop over letters, lines 316 to 367. \<^verbatim>\<open>random.sample\<close> raises
  \<^verbatim>\<open>ValueError\<close> when asked for more elements than the population has.
\<close>

definition letter_iteration ::
    "World \<Rightarrow> int option \<Rightarrow> real \<Rightarrow> VState \<Rightarrow> char \<Rightarrow> py_error + (VState \<times> VState list)" where
  "letter_iteration w max_files_per_letter sample_fraction s letter =
     (case letter_wavs w letter of
        None \<Rightarrow> Inr (s, [])
      | Some wav_files \<Rightarrow>
          let s1 = s\<lparr> total_files := total_files s + int (length wav_files) \<rparr>;
              sample_size = max 1 (py_int (real (length wav_files) * sample_fraction))
          in if sample_fraction < 1 \<and> int (length wav_files) < sample_size then Inl ValueError
             else
               let sampled = (if sample_fraction < 1
                              then random_sample w wav_files (nat sample_size)
                              else wav_files);
                   limited = (case max_files_per_letter of
                                None \<Rightarrow> sampled
                              | Some m \<Rightarrow> if m \<noteq> 0 then py_slice_to sampled m else sampled)
               in Inr (validate_letter_files w letter s1 limited))"

fun letters_loop ::
    "World \<Rightarrow> int option \<Rightarrow> real \<Rightarrow> VState \<Rightarrow> char list \<Rightarrow> py_error + (VState \<times> VState list)" where
  "letters_loop w max_files_per_letter sample_fraction s [] = Inr (s, [])"
| "letters_loop w max_files_per_letter sample_fraction s (letter # rest) =
     (case letter_iteration w max_files_per_letter sample_fraction s letter of
        Inl e \<Rightarrow> Inl e
      | Inr (s', visited) \<Rightarrow>
          (case letters_loop w max_files_per_letter sample_fraction s' rest of
             Inl e \<Rightarrow> Inl e
           | Inr (s'', visited') \<Rightarrow> Inr (s'', visited @ visited')))"

text \<open>
  The outcome of a call of \<^verbatim>\<open>validate_directory\<close> that returns: the dictionary returned
  (\<open>None\<close> for the empty dictionary of line 291), \<^verbatim>\<open>self.validation_results\<close> afterwards,
  and the states reached after each per-file iteration.
\<close>

record Outcome =
  stats :: "Stats option"
  results_after :: "ValidationResult list"
  iteration_states :: "VState list"

definition initial_state :: VState where
  "initial_state =
     \<lparr> total_files = 0, validated_files = 0, matched_files = 0, failed_files = 0,
       letter_stats = Map.empty, validation_results = [] \<rparr>"

text \<open>\<^verbatim>\<open>validate_directory\<close>, lines 270 to 383, on a fresh validator.\<close>

definition validate_directory :: "World \<Rightarrow> int option \<Rightarrow> real \<Rightarrow> py_error + Outcome" where
  "validate_directory w max_files_per_letter sample_fraction =
     (if \<not> root_exists w then
        Inr \<lparr> stats = None, results_after = [], iteration_states = [] \<rparr>
      else
        case letters_loop w max_files_per_letter sample_fraction initial_state
               ''ABCDEFGHIJKLMNOPQRSTUVWXYZ'' of
          Inl e \<Rightarrow> Inl e
        | Inr (s, visited) \<Rightarrow>
            let rate =
                  (if validated_files s > 0
                   then real_of_int (matched_files s) / real_of_int (validated_files s) * 100
                   else 0)
            in Inr \<lparr> stats = Some \<lparr> total_files = total_files s,
                                    validated_files = validated_files s,
                                    matched_files = matched_files s,
                                    failed_files = failed_files s,
                                    letter_stats = letter_stats s,
                                    match_rate = rate \<rparr>,
                     results_after = validation_results s,
                     iteration_states = visited \<rparr>)"

text \<open>
  The report of \<^verbatim>\<open>generate_report\<close>, lines 385 to 420. The fields inherited from
  \<open>Stats\<close> are the block \<^verbatim>\<open>summary\<close>, except \<open>letter_stats\<close>, which is the block
  \<^verbatim>\<open>letter_breakdown\<close>. The first argument of \<open>generate_report\<close> gives the direction of
  \<^verbatim>\<open>round\<close> at a tie for the three rounded entries.
\<close>

record Report = Stats +
  average_validation_score :: real
  average_audio_duration :: real
  total_audio_duration :: real
  all_validations :: "ValidationResult list"
  failed_validations :: "ValidationResult list"

definition generate_report :: "ties \<Rightarrow> Stats \<Rightarrow> ValidationResult list \<Rightarrow> Report" where
  "generate_report up st results =
     (let all_scores = map validation_score results;
          all_durations = map audio_duration_seconds results;
          avg_validation_score =
            (if all_scores \<noteq> [] then sum_list all_scores / real (length all_scores) else 0);
          avg_duration =
            (if all_durations \<noteq> [] then sum_list all_durations / real (length all_durations)
             else 0);
          total_duration = sum_list all_durations
      in \<lparr> total_files = total_files st,
           validated_files = validated_files st,
           matched_files = matched_files st,
           failed_files = failed_files st,
           letter_stats = letter_stats st,
           match_rate = match_rate st,
           average_validation_score =
             py_round (up ''average_validation_score'') avg_validation_score 2,
           average_audio_duration = py_round (up ''average_audio_duration'') avg_duration 3,
           total_audio_duration = py_round (up ''total_audio_duration'') total_duration 3,
           all_validations = results,
           failed_validations = filter (\<lambda>result. \<not> is_match result) results \<rparr>)"

text \<open>
  \<^verbatim>\<open>main\<close> of the validator, lines 453 to 526, with the script's last lines 529 to 536:
  the exit status of the process. \<^verbatim>\<open>main\<close> never calls \<^verbatim>\<open>sys.exit\<close>; a normal return
  ends the process with status 0, an exception that leaves \<^verbatim>\<open>main\<close> is raised again and
  ends it with status 1.
\<close>

definition validator_main :: "World \<Rightarrow> int option \<Rightarrow> real \<Rightarrow> nat" where
  "validator_main w max_files sample_fraction =
     (if \<not> model_loads w then 0
      else
        case validate_directory w max_files sample_fraction of
          Inl e \<Rightarrow> 1
        | Inr out \<Rightarrow>
            (case stats out of
               None \<Rightarrow> 0
             | Some st \<Rightarrow> if report_writable w then 0 else 1))"

subsection \<open>A sample run\<close>

text \<open>
  A small world used to run the validator on concrete files: letter \<open>B\<close> has two clips,
  one transcribed as "Bee." and one as "Me."; the path \<^verbatim>\<open>x_A.wav\<close> is transcribed as
  "Hey."; the sampler takes the first \<open>k\<close> elements; no rounding of the run meets a tie.
\<close>

definition demo_world :: World where
  "demo_world =
     \<lparr> wave_header = map_of [(''outputs/B/gtts_us_01_b.wav'', (22050, 22050)),
                             (''outputs/B/gtts_us_02_b.wav'', (11025, 22050))],
       whisper = map_of
         [(''outputs/B/gtts_us_01_b.wav'', [\<lparr> seg_text = '' Bee.'', avg_logprob = Some (- 0.5) \<rparr>]),
          (''outputs/B/gtts_us_02_b.wav'', [\<lparr> seg_text = '' Me.'', avg_logprob = Some (- 1) \<rparr>]),
          (''x_A.wav'', [\<lparr> seg_text = '' Hey.'', avg_logprob = Some (- 1) \<rparr>])],
       relative_to_base = map_of [],
       model_loads = True,
       root_exists = True,
       letter_wavs = map_of [(CHR ''B'', [''outputs/B/gtts_us_01_b.wav'',
                                          ''outputs/B/gtts_us_02_b.wav''])],
       random_sample = (\<lambda>population k. take k population),
       report_writable = True,
       duration_tie_up = ties_down \<rparr>"

text \<open>The states of that run after its first and after its second file.\<close>

definition demo_after_first :: VState where
  "demo_after_first =
     \<lparr> total_files = 2, validated_files = 1, matched_files = 1, failed_files = 0,
       letter_stats = [CHR ''B'' \<mapsto> \<lparr> total = 2, validated = 1, matched = 1, failed = 0 \<rparr>],
       validation_results = [fst (validate_file demo_world ''outputs/B/gtts_us_01_b.wav'')] \<rparr>"

definition demo_after_second :: VState where
  "demo_after_second =
     \<lparr> total_files = 2, validated_files = 2, matched_files = 1, failed_files = 1,
       letter_stats = [CHR ''B'' \<mapsto> \<lparr> total = 2, validated = 2, matched = 1, failed = 1 \<rparr>],
       validation_results = [fst (validate_file demo_world ''outputs/B/gtts_us_01_b.wav''),
                             fst (validate_file demo_world ''outputs/B/gtts_us_02_b.wav'')] \<rparr>"

text \<open>A result record with a given duration and no issue, and a directory with one clean
  clip (1 s, peak 0.5) and one file that does not decode.\<close>

definition demo_result :: "real \<Rightarrow> AudioQualityResult" where
  "demo_result d =
     \<lparr> duration_sec = d, sample_rate = 22050, rms_level = 0.05, peak_level = 0.5,
       is_clipping = False, is_too_quiet = False, has_silence = False,
       quality_score = 100, issues = [] \<rparr>"

definition demo_quality_world :: QWorld where
  "demo_quality_world =
     \<lparr> libs_available = True, base_dir_exists = True,
       wav_clips = [Some \<lparr> audio = Arr1 [0.5, - 0.5], sr = 2, tie_up = ties_down \<rparr>, None],
       report_file_writable = True,
       summary_tie_up = ties_down \<rparr>"

subsection \<open>Consistency of the counters\<close>

text \<open>The counters add up, globally and in every entry of \<^verbatim>\<open>letter_stats\<close>.\<close>

definition consistent :: "'a Counters_scheme \<Rightarrow> bool" where
  "consistent s \<longleftrightarrow>
     validated_files s = matched_files s + failed_files s
     \<and> (\<forall>l e. letter_stats s l = Some e \<longrightarrow> validated e = matched e + failed e)"

section \<open>Properties of the signal quality analyser\<close>

subsection \<open>Auxiliary facts\<close>

lemma py_round_nearest:
  "(\<exists>k::int. py_round up x n = of_int k / 10 ^ n) \<and> \<bar>py_round up x n - x\<bar> \<le> 1 / (2 * 10 ^ n)"
proof -
  define s where "s = x * 10 ^ n"
  define k where "k = (if s - of_int \<lfloor>s\<rfloor> < 1 / 2 then \<lfloor>s\<rfloor>
                       else if 1 / 2 < s - of_int \<lfloor>s\<rfloor> then \<lfloor>s\<rfloor> + 1
                       else if up then \<lfloor>s\<rfloor> + 1 else \<lfloor>s\<rfloor>)"
  have r: "py_round up x n = of_int k / 10 ^ n"
    by (simp add: py_round_def Let_def k_def s_def)
  have "\<bar>of_int k - s\<bar> \<le> 1 / 2"
    unfolding k_def by (auto simp: abs_if) linarith+
  then have "\<bar>of_int k - s\<bar> / 10 ^ n \<le> (1 / 2) / 10 ^ n"
    by (intro divide_right_mono) simp_all
  moreover have "of_int k / 10 ^ n - x = (of_int k - s) / 10 ^ n"
    by (simp add: s_def diff_divide_distrib)
  ultimately have "\<bar>py_round up x n - x\<bar> \<le> 1 / (2 * 10 ^ n)"
    unfolding r by (simp add: abs_divide)
  with r show ?thesis by blast
qed

lemma sqrt_less_iff_sq: "0 \<le> c \<Longrightarrow> sqrt x < c \<longleftrightarrow> x < c ^ 2"
  by (metis real_sqrt_less_iff real_sqrt_abs abs_of_nonneg)

lemma clip_rms_quiet_iff:
  "clip_rms c < min_rms \<longleftrightarrow> np_mean (map (\<lambda>x. x ^ 2) (to_mono (audio c))) < 1 / 10000"
  unfolding clip_rms_def min_rms_def
  by (subst sqrt_less_iff_sq) (simp_all add: power2_eq_square)

lemmas thresholds =
  min_duration_def max_duration_def min_rms_def clipping_threshold_def
  silence_threshold_def silence_ratio_threshold_def

lemmas clip_metrics = clip_duration_def clip_peak_def clip_silence_ratio_def np_mean_def

lemma check_file_fields:
  assumes "check_file (Some c) = Some r"
  shows "issues r = detect_issues (clip_duration c) (clip_rms c) (clip_peak c)
                      (clip_silence_ratio c)"
    and "quality_score r =
           py_round (tie_up c ''quality_score'') (score_of (issues r) (clip_duration c)) 2"
    and "is_clipping r = (clip_peak c \<ge> clipping_threshold)"
    and "duration_sec r = py_round (tie_up c ''duration_sec'') (clip_duration c) 3"
    and "sr c \<noteq> 0" and "to_mono (audio c) \<noteq> []"
  using assms by (auto simp: check_file_def Let_def split: if_splits)

lemma check_file_defined:
  "sr c \<noteq> 0 \<Longrightarrow> to_mono (audio c) \<noteq> [] \<Longrightarrow> \<exists>r. check_file (Some c) = Some r"
  by (simp add: check_file_def Let_def)

subsection \<open>Clipping flag\<close>

text \<open>
  Claim C6. For every clip that \<^verbatim>\<open>check_file\<close> decodes, the flag \<^verbatim>\<open>is_clipping\<close> of the
  result is true exactly when the peak, the largest absolute sample of the mono signal,
  is at least 0.99; the tag \<^verbatim>\<open>clipping\<close> is in the issue list in exactly the same case.
  The boundary value 0.99 itself counts as clipping.
\<close>

theorem clipping_flag_threshold:
  assumes "check_file (Some c) = Some r"
  shows "is_clipping r = (clip_peak c \<ge> 0.99)
         \<and> (''clipping'' \<in> set (issues r)) = (clip_peak c \<ge> 0.99)"
  using check_file_fields(1,3) [OF assms]
  by (simp add: detect_issues_def clipping_threshold_def)

text \<open>A two-sample clip whose peak is exactly 0.99 is flagged.\<close>

theorem clipping_flag_threshold_witness:
  "\<exists>r. check_file (Some \<lparr> audio = Arr1 [0.5, -0.99], sr = 2, tie_up = ties_down \<rparr>) = Some r
       \<and> is_clipping r \<and> ''clipping'' \<in> set (issues r)"
proof -
  let ?c = "\<lparr> audio = Arr1 [0.5, -0.99], sr = 2, tie_up = ties_down \<rparr>"
  obtain r where r: "check_file (Some ?c) = Some r"
    using check_file_defined [of ?c] by auto
  have "clip_peak ?c = 0.99" by (simp add: clip_peak_def)
  with clipping_flag_threshold [OF r] r show ?thesis by simp
qed

subsection \<open>Quality score\<close>

text \<open>
  Claim C1, as amended. For every clip that \<^verbatim>\<open>check_file\<close> decodes, the recorded quality
  score is \<open>clamp(100 - 15 * (number of issue tags) - 10 * |duration - 1.0|, 0, 100)\<close>
  rounded to two decimals: a multiple of 0.01 at distance at most 0.005 from that value
  (when the value lies exactly halfway between two multiples, either of them may be
  stored). The duration is sample count over sample rate. A clip of 0.2 s with peak 0.999
  whose RMS is not below 0.01 and whose silence ratio is not above 0.7 gets the issues
  \<^verbatim>\<open>["clipping", "too_short"]\<close> and the score 62.0.
\<close>

theorem quality_score_formula:
  assumes "check_file (Some c) = Some r"
  shows "(\<exists>k::int. quality_score r = of_int k / 100)
         \<and> \<bar>quality_score r
              - max 0 (min 100
                  (100 - 15 * real (length (issues r)) - 10 * \<bar>clip_duration c - 1.0\<bar>))\<bar>
             \<le> 1 / 200
         \<and> (clip_duration c = 0.2 \<and> clip_peak c = 0.999 \<and> \<not> clip_rms c < 0.01
              \<and> \<not> clip_silence_ratio c > 0.7
            \<longrightarrow> issues r = [''clipping'', ''too_short''] \<and> quality_score r = 62.0)"
proof -
  note f = check_file_fields [OF assms]
  have formula: "score_of (issues r) (clip_duration c) =
      max 0 (min 100 (100 - 15 * real (length (issues r)) - 10 * \<bar>clip_duration c - 1.0\<bar>))"
    by (simp add: score_of_def mult.commute)
  note near = py_round_nearest [of "tie_up c ''quality_score''"
      "score_of (issues r) (clip_duration c)" 2]
  have grid: "\<exists>k::int. quality_score r = of_int k / 100"
    using near unfolding f(2) by simp
  have dist: "\<bar>quality_score r
              - max 0 (min 100
                  (100 - 15 * real (length (issues r)) - 10 * \<bar>clip_duration c - 1.0\<bar>))\<bar>
             \<le> 1 / 200"
    using near unfolding f(2) formula by simp
  have scenario: "issues r = [''clipping'', ''too_short'']"
    if "clip_duration c = 0.2" "clip_peak c = 0.999" "\<not> clip_rms c < 0.01"
       "\<not> clip_silence_ratio c > 0.7"
    using that f(1) by (simp add: detect_issues_def thresholds)
  have value62: "py_round up (score_of [''clipping'', ''too_short''] d) 2 = 62.0"
    if "d = 0.2" for d up
    unfolding that by (simp add: score_of_def py_round_def)
  show ?thesis
  proof (intro conjI impI)
    show "\<exists>k::int. quality_score r = of_int k / 100" by (rule grid)
    show "\<bar>quality_score r
              - max 0 (min 100
                  (100 - 15 * real (length (issues r)) - 10 * \<bar>clip_duration c - 1.0\<bar>))\<bar>
             \<le> 1 / 200" by (rule dist)
  next
    assume h: "clip_duration c = 0.2 \<and> clip_peak c = 0.999 \<and> \<not> clip_rms c < 0.01
       \<and> \<not> clip_silence_ratio c > 0.7"
    then show iss: "issues r = [''clipping'', ''too_short'']" using scenario by blast
    from h have "clip_duration c = 0.2" by blast
    from value62 [OF this] show "quality_score r = 62.0" unfolding f(2) iss .
  qed
qed

text \<open>Two samples at rate 10: 0.2 s, peak 0.999, loud enough and not silent.\<close>

theorem quality_score_formula_witness:
  "\<exists>r. check_file (Some \<lparr> audio = Arr1 [0.999, -0.5], sr = 10, tie_up = ties_down \<rparr>) = Some r
       \<and> issues r = [''clipping'', ''too_short''] \<and> quality_score r = 62.0"
proof -
  let ?c = "\<lparr> audio = Arr1 [0.999, -0.5], sr = 10, tie_up = ties_down \<rparr>"
  obtain r where r: "check_file (Some ?c) = Some r"
    using check_file_defined [of ?c] by auto
  have "clip_duration ?c = 0.2" "clip_peak ?c = 0.999" "\<not> clip_silence_ratio ?c > 0.7"
    by (simp_all add: clip_metrics thresholds)
  moreover have "\<not> clip_rms ?c < 0.01"
    using clip_rms_quiet_iff [of ?c] by (simp add: np_mean_def min_rms_def power2_eq_square)
  ultimately show ?thesis using quality_score_formula [OF r] r by blast
qed

text \<open>
  The scenario of claim C1 without the two extra conditions does not hold: ten samples at
  rate 50, one of them at 0.999 and nine silent, last 0.2 s and peak at 0.999, but nine
  tenths of the samples are silent, so a third tag is added and the score is 47.
\<close>

theorem quality_scenario_counterexample:
  "clip_duration \<lparr> audio = Arr1 [0.999, 0, 0, 0, 0, 0, 0, 0, 0, 0], sr = 50, tie_up = ties_down \<rparr> = 0.2
   \<and> clip_peak \<lparr> audio = Arr1 [0.999, 0, 0, 0, 0, 0, 0, 0, 0, 0], sr = 50, tie_up = ties_down \<rparr> = 0.999
   \<and> map_option issues
        (check_file (Some \<lparr> audio = Arr1 [0.999, 0, 0, 0, 0, 0, 0, 0, 0, 0], sr = 50, tie_up = ties_down \<rparr>))
      = Some [''clipping'', ''too_short'', ''mostly_silent'']
   \<and> map_option quality_score
        (check_file (Some \<lparr> audio = Arr1 [0.999, 0, 0, 0, 0, 0, 0, 0, 0, 0], sr = 50, tie_up = ties_down \<rparr>))
      = Some 47"
proof -
  let ?c = "\<lparr> audio = Arr1 [0.999, 0, 0, 0, 0, 0, 0, 0, 0, 0], sr = 50, tie_up = ties_down \<rparr>"
  have d: "clip_duration ?c = 0.2" by (simp add: clip_duration_def)
  have p: "clip_peak ?c = 0.999" by (simp add: clip_peak_def)
  have q: "\<not> clip_rms ?c < min_rms"
    by (simp add: clip_rms_quiet_iff np_mean_def power2_eq_square)
  have s: "clip_silence_ratio ?c = 0.9"
    by (simp add: clip_silence_ratio_def silence_threshold_def)
  obtain r where r: "check_file (Some ?c) = Some r"
    using check_file_defined [of ?c] by auto
  note f = check_file_fields [OF r]
  have iss: "issues r = [''clipping'', ''too_short'', ''mostly_silent'']"
    unfolding f(1) d p s using q
    by (simp add: detect_issues_def min_duration_def max_duration_def clipping_threshold_def
        silence_ratio_threshold_def)
  have "quality_score r = 47"
    unfolding f(2) iss d by (simp add: score_of_def py_round_def)
  with iss r d p show ?thesis by simp
qed

subsection \<open>Median duration\<close>

lemma sort_cong_mset: "mset xs = mset ys \<Longrightarrow> sort xs = sort (ys :: real list)"
  by (rule properties_for_sort) simp_all

text \<open>
  Claim C8. For every non-empty list of quality results and every permutation of it, the
  summary reports the same median duration: the durations are sorted before the element
  at index \<open>length div 2\<close> is taken. (Both orders round the same stored duration, so the
  direction of \<^verbatim>\<open>round\<close> at a tie is the same for both.)
\<close>

theorem median_reorder_invariant:
  assumes "mset rs = mset rs'" and "rs \<noteq> []"
  shows "generate_summary up rs ic \<noteq> None
         \<and> map_option duration_median (generate_summary up rs ic)
             = map_option duration_median (generate_summary up rs' ic')
         \<and> map_option duration_median (generate_summary up rs ic)
             = Some (py_round (up ''duration.median'')
                       (sort (map duration_sec rs) ! (length rs div 2)) 3)"
proof -
  from assms have ne: "rs' \<noteq> []" by auto
  have len: "length rs = length rs'" using assms(1) by (rule mset_eq_length)
  have "mset (map duration_sec rs) = mset (map duration_sec rs')"
    using assms(1) by (metis mset_map)
  then have "sort (map duration_sec rs) = sort (map duration_sec rs')"
    by (rule sort_cong_mset)
  with assms(2) ne len show ?thesis
    by (simp add: generate_summary_def Let_def)
qed

text \<open>Four results with durations 3, 1, 2, 4 and the same four in increasing order:
  the median is 3 for both.\<close>

theorem median_reorder_invariant_witness:
  "mset [demo_result 3, demo_result 1, demo_result 2, demo_result 4]
     = mset [demo_result 1, demo_result 2, demo_result 3, demo_result 4]
   \<and> [demo_result 3, demo_result 1, demo_result 2, demo_result 4] \<noteq> []
   \<and> map_option duration_median
        (generate_summary ties_down [demo_result 3, demo_result 1, demo_result 2, demo_result 4] [])
      = Some 3
   \<and> map_option duration_median
        (generate_summary ties_down [demo_result 1, demo_result 2, demo_result 3, demo_result 4] [])
      = Some 3"
proof -
  let ?rs = "[demo_result 3, demo_result 1, demo_result 2, demo_result 4]"
  let ?rs' = "[demo_result 1, demo_result 2, demo_result 3, demo_result 4]"
  have p: "mset ?rs = mset ?rs'" by (simp add: add.commute add.left_commute)
  have n: "?rs \<noteq> []" by simp
  have v: "map_option duration_median (generate_summary ties_down ?rs' []) = Some 3"
    by (simp add: generate_summary_def Let_def demo_result_def py_round_def)
  from median_reorder_invariant [OF p n, of ties_down "[]" "[]"] p n v show ?thesis by simp
qed

subsection \<open>What \<^verbatim>\<open>main\<close> of the quality checker returns\<close>

lemma count_issue_nonempty: "count_issue i d \<noteq> []"
  by (induction i d rule: count_issue.induct) auto

lemma fold_count_issue_empty: "fold count_issue xs d = [] \<longleftrightarrow> xs = [] \<and> d = []"
  by (induction xs arbitrary: d) (auto simp: count_issue_nonempty)

lemma analyze_loop_counts:
  "snd (analyze_loop fs rs ic) = [] \<longleftrightarrow>
     ic = [] \<and> (\<forall>f \<in> set fs. \<forall>r. check_file f = Some r \<longrightarrow> issues r = [])"
  by (induction fs rs ic rule: analyze_loop.induct)
     (auto simp: fold_count_issue_empty split: option.splits)

lemma analyze_loop_results:
  "fst (analyze_loop fs rs ic) = [] \<longleftrightarrow> rs = [] \<and> (\<forall>f \<in> set fs. check_file f = None)"
  by (induction fs rs ic rule: analyze_loop.induct) (auto split: option.splits)

lemma quality_main_analysed:
  assumes "libs_available qw" "base_dir_exists qw" "wav_clips qw \<noteq> []"
    "report_file_writable qw"
  shows "quality_main qw =
     (if \<exists>f \<in> set (wav_clips qw). \<exists>r. check_file f = Some r \<and> issues r \<noteq> [] then 1 else 0)"
proof -
  obtain rs ic where al: "analyze_loop (wav_clips qw) [] [] = (rs, ic)"
    by (cases "analyze_loop (wav_clips qw) [] []")
  have ic: "ic = [] \<longleftrightarrow> (\<forall>f \<in> set (wav_clips qw). \<forall>r. check_file f = Some r \<longrightarrow> issues r = [])"
    using analyze_loop_counts [of "wav_clips qw" "[]" "[]"] al by simp
  have rs: "rs = [] \<longleftrightarrow> (\<forall>f \<in> set (wav_clips qw). check_file f = None)"
    using analyze_loop_results [of "wav_clips qw" "[]" "[]"] al by simp
  have main: "quality_main qw = (if rs \<noteq> [] \<and> ic \<noteq> [] then 1 else 0)"
    using assms al
    by (simp add: quality_main_def check_all_files_def generate_summary_def Let_def)
  show ?thesis
  proof (cases "ic = []")
    case True
    with main ic show ?thesis by auto
  next
    case False
    with ic obtain f r where "f \<in> set (wav_clips qw)" "check_file f = Some r" "issues r \<noteq> []"
      by blast
    moreover from this rs have "rs \<noteq> []" by auto
    ultimately show ?thesis using main False by auto
  qed
qed

section \<open>Properties of the pronunciation validator\<close>

subsection \<open>Auxiliary facts on strings and the letter table\<close>

lemma py_in_sublist: "py_in a b \<longleftrightarrow> sublist a b"
  by (induction b) (simp_all add: sublist_Cons_right)

lemma pattern_loop_iff:
  "pattern_loop ps t \<longleftrightarrow> (\<exists>v \<in> set ps. sublist v t \<or> sublist t v)"
  by (induction ps) (auto simp: py_in_sublist)

lemma letter_keys:
  "map fst letter_patterns = map (\<lambda>c. [c]) ''ABCDEFGHIJKLMNOPQRSTUVWXYZ''"
  by (simp add: letter_patterns_def)

lemma letter_keys_distinct: "distinct (map fst letter_patterns)"
  unfolding letter_keys by (simp add: distinct_map inj_on_def)

lemma dict_get_letter:
  assumes "(L, vs) \<in> set letter_patterns"
  shows "dict_get letter_patterns L d = vs"
  using assms letter_keys_distinct by (simp add: dict_get_def)

lemma dict_get_cases:
  "(\<exists>vs. (L, vs) \<in> set letter_patterns \<and> dict_get letter_patterns L d = vs)
   \<or> (L \<notin> fst ` set letter_patterns \<and> dict_get letter_patterns L d = d)"
proof (cases "map_of letter_patterns L")
  case None
  then have "L \<notin> fst ` set letter_patterns" by (simp add: map_of_eq_None_iff)
  with None show ?thesis by (simp add: dict_get_def)
next
  case (Some vs)
  then have "(L, vs) \<in> set letter_patterns" by (rule map_of_SomeD)
  with Some show ?thesis by (auto simp: dict_get_def)
qed

lemma table_has_lower_bool:
  "list_all (\<lambda>(L, vs). py_lower L \<in> set vs) letter_patterns"
  by code_simp

lemma table_has_lower:
  "(L, vs) \<in> set letter_patterns \<Longrightarrow> py_lower L \<in> set vs"
  using table_has_lower_bool by (auto simp: list_all_iff)

lemma re_search_letter_SomeD:
  assumes "re_search_letter s = Some c"
  shows "is_az c \<and> (suffix [CHR ''_'', c] s \<or> suffix [CHR ''_'', c, newline] s)"
proof -
  have rev_suffix: "suffix (rev ys) s" if "rev s = ys @ zs" for ys zs
  proof -
    from that have "s = rev zs @ rev ys" by (metis rev_append rev_rev_ident)
    then show ?thesis by (simp add: suffix_def)
  qed
  from assms show ?thesis
    by (auto simp: re_search_letter_def split: list.splits if_splits
        intro: rev_suffix [where zs = "_", of "[_, _]", simplified]
               rev_suffix [where zs = "_", of "[_, _, _]", simplified])
qed

lemma stem_foo_bar: "py_lower (path_stem ''foo_bar.wav'') = ''foo_bar''"
  by code_simp

subsection \<open>The sample run, evaluated\<close>

lemma demo_strings:
  "extract_letter_from_filename ''x_A.wav'' = Some ''A''"
  "extract_letter_from_filename ''outputs/B/gtts_us_01_b.wav'' = Some ''B''"
  "extract_letter_from_filename ''outputs/B/gtts_us_02_b.wav'' = Some ''B''"
  "py_strip (py_strip '' Hey.'') = ''Hey.''"
  "py_strip (py_strip '' Bee.'') = ''Bee.''"
  "py_strip (py_strip '' Me.'') = ''Me.''"
  "matches_expected_letter ''Hey.'' ''A'' = False"
  "matches_expected_letter ''Bee.'' ''B'' = True"
  "matches_expected_letter ''Me.'' ''B'' = False"
  "path_stem ''x_A.wav'' = ''x_A''"
  "is_az CHR ''A'' = False"
  by code_simp+

lemma demo_durations:
  "get_audio_duration demo_world ''x_A.wav'' = 0"
  "get_audio_duration demo_world ''outputs/B/gtts_us_01_b.wav'' = 1"
  "get_audio_duration demo_world ''outputs/B/gtts_us_02_b.wav'' = 0.5"
  by (simp_all add: get_audio_duration_def demo_world_def py_round_def)

lemma demo_whisper:
  "whisper demo_world ''x_A.wav'' = Some [\<lparr> seg_text = '' Hey.'', avg_logprob = Some (- 1) \<rparr>]"
  "whisper demo_world ''outputs/B/gtts_us_01_b.wav'' =
     Some [\<lparr> seg_text = '' Bee.'', avg_logprob = Some (- 0.5) \<rparr>]"
  "whisper demo_world ''outputs/B/gtts_us_02_b.wav'' =
     Some [\<lparr> seg_text = '' Me.'', avg_logprob = Some (- 1) \<rparr>]"
  "relative_to_base demo_world p = None"
  by (simp_all add: demo_world_def)

lemma demo_transcribe:
  "transcribe_audio demo_world ''x_A.wav'' = (''Hey.'', 0.8, 0)"
  "transcribe_audio demo_world ''outputs/B/gtts_us_01_b.wav'' = (''Bee.'', 0.9, 1)"
  "transcribe_audio demo_world ''outputs/B/gtts_us_02_b.wav'' = (''Me.'', 0.8, 0.5)"
  by (simp_all add: transcribe_audio_def demo_durations demo_whisper demo_strings Let_def)

lemma demo_validate:
  "validate_file demo_world ''x_A.wav'' =
     (\<lparr> file_path = ''x_A.wav'', relative_path = ''x_A.wav'', expected_letter = ''A'',
        transcribed_text = ''Hey.'', is_match = False, confidence = 0.8,
        audio_duration_seconds = 0, error_type = Some ''pronunciation_mismatch'',
        validation_score = 80 \<rparr>, [''x_A.wav''])"
  "validate_file demo_world ''outputs/B/gtts_us_01_b.wav'' =
     (\<lparr> file_path = ''outputs/B/gtts_us_01_b.wav'',
        relative_path = ''outputs/B/gtts_us_01_b.wav'', expected_letter = ''B'',
        transcribed_text = ''Bee.'', is_match = True, confidence = 0.9,
        audio_duration_seconds = 1, error_type = None,
        validation_score = 100 \<rparr>, [''outputs/B/gtts_us_01_b.wav''])"
  "validate_file demo_world ''outputs/B/gtts_us_02_b.wav'' =
     (\<lparr> file_path = ''outputs/B/gtts_us_02_b.wav'',
        relative_path = ''outputs/B/gtts_us_02_b.wav'', expected_letter = ''B'',
        transcribed_text = ''Me.'', is_match = False, confidence = 0.8,
        audio_duration_seconds = 0.5, error_type = Some ''pronunciation_mismatch'',
        validation_score = 80 \<rparr>, [''outputs/B/gtts_us_02_b.wav''])"
  by (simp_all add: validate_file_def demo_transcribe demo_whisper demo_strings Let_def)

subsection \<open>Normalisation of the transcript\<close>

text \<open>
  Claim C7, as amended. For every transcript, the normalisation applied before matching
  (lower-casing, stripping, then the substitution of line 195) yields a string in which
  every character is alphanumeric, an underscore or whitespace: exactly the characters
  that are none of the three are removed from the lower-cased, stripped transcript.
\<close>

theorem clean_transcription_chars:
  "(\<forall>c \<in> set (clean_transcription T). py_isalnum c \<or> c = CHR ''_'' \<or> py_isspace c)
   \<and> clean_transcription T =
       filter (\<lambda>c. py_isalnum c \<or> c = CHR ''_'' \<or> py_isspace c) (py_strip (py_lower T))"
  by (auto simp: clean_transcription_def re_sub_nonword_def re_word_def)

text \<open>In the normalised form of " A_b! " the letter \<open>b\<close> survives; it is alphanumeric.\<close>

theorem clean_transcription_chars_witness:
  "CHR ''b'' \<in> set (clean_transcription '' A_b! '')
   \<and> (py_isalnum CHR ''b'' \<or> CHR ''b'' = CHR ''_'' \<or> py_isspace CHR ''b'')"
proof -
  have "CHR ''b'' \<in> set (clean_transcription '' A_b! '')" by code_simp
  with clean_transcription_chars [of "'' A_b! ''"] show ?thesis by blast
qed

text \<open>
  The claim as worded fails on the transcript \<^verbatim>\<open>a_b\<close>: the underscore is neither
  alphanumeric nor whitespace and is kept, since the class \<^verbatim>\<open>\w\<close> contains it.
\<close>

theorem clean_transcription_counterexample:
  "CHR ''_'' \<in> set (clean_transcription ''a_b'')
   \<and> \<not> py_isalnum CHR ''_'' \<and> \<not> py_isspace CHR ''_''"
  by code_simp

subsection \<open>Matching\<close>

text \<open>
  Claim C2. For every expected letter \<open>L\<close> among A to Z and every non-empty transcript
  \<open>T\<close>, \<^verbatim>\<open>matches_expected_letter(T, L)\<close> is true if and only if some accepted variant of
  \<open>L\<close> occurs as a contiguous block in the normalised transcript, or the normalised
  transcript occurs as a contiguous block in some accepted variant of \<open>L\<close>, or the
  normalised transcript is the single character \<open>L\<close> lower-cased.
\<close>

theorem matches_iff_containment:
  assumes "L \<in> set (map (\<lambda>c. [c]) ''ABCDEFGHIJKLMNOPQRSTUVWXYZ'')" and "T \<noteq> []"
  shows "matches_expected_letter T L \<longleftrightarrow>
           (\<exists>vs v. (L, vs) \<in> set letter_patterns \<and> v \<in> set vs
               \<and> (sublist v (clean_transcription T) \<or> sublist (clean_transcription T) v))
           \<or> clean_transcription T = py_lower L"
proof -
  from assms(1) have "L \<in> fst ` set letter_patterns"
    unfolding letter_keys [symmetric] by simp
  then obtain vs where vs: "(L, vs) \<in> set letter_patterns" by auto
  have uniq: "vs' = vs" if "(L, vs') \<in> set letter_patterns" for vs'
    using that vs dict_get_letter by metis
  have len: "length (py_lower L) = 1"
    using assms(1) by (auto simp: py_lower_def)
  have "matches_expected_letter T L \<longleftrightarrow>
          (\<exists>v \<in> set vs. sublist v (clean_transcription T) \<or> sublist (clean_transcription T) v)
          \<or> clean_transcription T = py_lower L"
    using assms(2) len
    by (auto simp: matches_expected_letter_def Let_def dict_get_letter [OF vs] pattern_loop_iff)
  also have "(\<exists>v \<in> set vs. sublist v (clean_transcription T) \<or> sublist (clean_transcription T) v)
      \<longleftrightarrow> (\<exists>vs v. (L, vs) \<in> set letter_patterns \<and> v \<in> set vs
               \<and> (sublist v (clean_transcription T) \<or> sublist (clean_transcription T) v))"
    using vs uniq by blast
  finally show ?thesis .
qed

text \<open>"Bee." for the letter B: the function answers true, so one of the three cases holds.\<close>

theorem matches_iff_containment_witness:
  "''B'' \<in> set (map (\<lambda>c. [c]) ''ABCDEFGHIJKLMNOPQRSTUVWXYZ'') \<and> ''Bee.'' \<noteq> []
   \<and> matches_expected_letter ''Bee.'' ''B''
   \<and> ((\<exists>vs v. (''B'', vs) \<in> set letter_patterns \<and> v \<in> set vs
           \<and> (sublist v (clean_transcription ''Bee.'') \<or> sublist (clean_transcription ''Bee.'') v))
        \<or> clean_transcription ''Bee.'' = py_lower ''B'')"
proof -
  have h1: "''B'' \<in> set (map (\<lambda>c. [c]) ''ABCDEFGHIJKLMNOPQRSTUVWXYZ'')" by simp
  have h2: "''Bee.'' \<noteq> []" by simp
  have m: "matches_expected_letter ''Bee.'' ''B''" by (simp add: demo_strings)
  from matches_iff_containment [OF h1 h2] m h1 h2 show ?thesis by blast
qed

text \<open>
  Claim C9. The single-character check of lines 205 to 207 is redundant: every list of
  the letter table contains its letter lower-cased, the fallback list of a string that is
  not in the table is that string lower-cased, and for every transcript and every
  expected letter the function returns the same value with and without the check.
\<close>

theorem single_char_branch_redundant:
  "(\<forall>(L, vs) \<in> set letter_patterns. py_lower L \<in> set vs)
   \<and> matches_expected_letter T E = matches_without_single_char T E"
proof
  show "\<forall>(L, vs) \<in> set letter_patterns. py_lower L \<in> set vs"
    using table_has_lower by blast
next
  have "pattern_loop (dict_get letter_patterns E [py_lower E]) (py_lower E)"
    using dict_get_cases [of E "[py_lower E]"] table_has_lower [of E]
    by (auto simp: pattern_loop_iff)
  then show "matches_expected_letter T E = matches_without_single_char T E"
    by (auto simp: matches_expected_letter_def matches_without_single_char_def Let_def)
qed

text \<open>The entry of the letter B, and the transcript "B" for it.\<close>

theorem single_char_branch_redundant_witness:
  "(''B'', [''b'', ''be'', ''bee'']) \<in> set letter_patterns
   \<and> py_lower ''B'' \<in> set [''b'', ''be'', ''bee'']
   \<and> matches_expected_letter ''B'' ''B'' = matches_without_single_char ''B'' ''B''"
proof -
  have "(''B'', [''b'', ''be'', ''bee'']) \<in> set letter_patterns"
    by (simp add: letter_patterns_def)
  with single_char_branch_redundant [of "''B''" "''B''"] show ?thesis by blast
qed

subsection \<open>Per-file validation\<close>

text \<open>
  Claim C3. Every result of \<^verbatim>\<open>validate_file\<close>, the two terminal results for an invalid
  file name and a failed transcription included, satisfies: a match has validation score
  100, and a result that is no match has validation score equal to its recorded
  confidence times 100.
\<close>

theorem validation_score_invariant:
  "(is_match (fst (validate_file w p)) \<longrightarrow> validation_score (fst (validate_file w p)) = 100)
   \<and> (\<not> is_match (fst (validate_file w p)) \<longrightarrow>
        validation_score (fst (validate_file w p)) = confidence (fst (validate_file w p)) * 100)"
  by (simp add: validate_file_def Let_def split: option.split prod.split)

text \<open>The two clips of the sample run: a match with score 100, a mismatch with
  confidence 0.8 and score 80.\<close>

theorem validation_score_invariant_witness:
  "is_match (fst (validate_file demo_world ''outputs/B/gtts_us_01_b.wav''))
   \<and> validation_score (fst (validate_file demo_world ''outputs/B/gtts_us_01_b.wav'')) = 100
   \<and> \<not> is_match (fst (validate_file demo_world ''outputs/B/gtts_us_02_b.wav''))
   \<and> confidence (fst (validate_file demo_world ''outputs/B/gtts_us_02_b.wav'')) = 0.8
   \<and> validation_score (fst (validate_file demo_world ''outputs/B/gtts_us_02_b.wav'')) = 0.8 * 100"
proof -
  have m: "is_match (fst (validate_file demo_world ''outputs/B/gtts_us_01_b.wav''))"
    and n: "\<not> is_match (fst (validate_file demo_world ''outputs/B/gtts_us_02_b.wav''))"
    and c: "confidence (fst (validate_file demo_world ''outputs/B/gtts_us_02_b.wav'')) = 0.8"
    by (simp_all add: demo_validate)
  from validation_score_invariant [of demo_world "''outputs/B/gtts_us_01_b.wav''"] m
       validation_score_invariant [of demo_world "''outputs/B/gtts_us_02_b.wav''"] n c
  show ?thesis by simp
qed

text \<open>
  Claim C5, as amended. For every audio path whose file name stem, once lower-cased, ends
  neither with an underscore followed by one letter a to z nor with such a pair followed
  by a line feed, \<^verbatim>\<open>validate_file\<close> returns the terminal result with expected letter
  \<^verbatim>\<open>UNKNOWN\<close>, error type \<^verbatim>\<open>invalid_filename\<close>, no match and score 0, and does not call
  the transcription step.
\<close>

theorem invalid_filename_terminal:
  assumes "\<forall>c. is_az c \<longrightarrow> \<not> suffix [CHR ''_'', c] (py_lower (path_stem p))
                       \<and> \<not> suffix [CHR ''_'', c, newline] (py_lower (path_stem p))"
  shows "validate_file w p =
           (\<lparr> file_path = p,
              relative_path = (case relative_to_base w p of Some r \<Rightarrow> r | None \<Rightarrow> p),
              expected_letter = ''UNKNOWN'', transcribed_text = [],
              is_match = False, confidence = 0, audio_duration_seconds = 0,
              error_type = Some ''invalid_filename'', validation_score = 0 \<rparr>, [])"
proof -
  have "re_search_letter (py_lower (path_stem p)) = None"
  proof (cases "re_search_letter (py_lower (path_stem p))")
    case (Some c)
    from re_search_letter_SomeD [OF this] assms show ?thesis by blast
  qed simp
  then show ?thesis
    by (simp add: validate_file_def extract_letter_from_filename_def Let_def)
qed

text \<open>The file name \<^verbatim>\<open>foo_bar.wav\<close> of the specification's fifth scenario.\<close>

theorem invalid_filename_terminal_witness:
  "validate_file demo_world ''foo_bar.wav'' =
     (\<lparr> file_path = ''foo_bar.wav'', relative_path = ''foo_bar.wav'',
        expected_letter = ''UNKNOWN'', transcribed_text = [],
        is_match = False, confidence = 0, audio_duration_seconds = 0,
        error_type = Some ''invalid_filename'', validation_score = 0 \<rparr>, [])"
proof -
  have h: "\<forall>c. is_az c \<longrightarrow> \<not> suffix [CHR ''_'', c] (py_lower (path_stem ''foo_bar.wav''))
            \<and> \<not> suffix [CHR ''_'', c, newline] (py_lower (path_stem ''foo_bar.wav''))"
    unfolding stem_foo_bar by (auto simp: suffix_def Cons_eq_append_conv newline_def)
  have "relative_to_base demo_world ''foo_bar.wav'' = None"
    by (simp add: demo_world_def)
  with invalid_filename_terminal [OF h, of demo_world] show ?thesis by simp
qed

text \<open>
  The claim as worded fails on \<^verbatim>\<open>x_A.wav\<close>: the stem \<^verbatim>\<open>x_A\<close> does not end with a
  lower-case letter, but the stem is lower-cased before it is matched (line 115), so the
  letter A is extracted and the file is transcribed.
\<close>

theorem uppercase_suffix_counterexample:
  "path_stem ''x_A.wav'' = ''x_A'' \<and> \<not> is_az CHR ''A''
   \<and> expected_letter (fst (validate_file demo_world ''x_A.wav'')) = ''A''
   \<and> error_type (fst (validate_file demo_world ''x_A.wav'')) = Some ''pronunciation_mismatch''
   \<and> snd (validate_file demo_world ''x_A.wav'') = [''x_A.wav'']"
  by (simp add: demo_validate demo_strings)

subsection \<open>Batch validation: the sample run, evaluated\<close>

lemma demo_letter_wavs:
  "letter_wavs demo_world l =
     (if l = CHR ''B'' then Some [''outputs/B/gtts_us_01_b.wav'', ''outputs/B/gtts_us_02_b.wav'']
      else None)"
  by (simp add: demo_world_def)

lemma demo_skip: "l \<noteq> CHR ''B'' \<Longrightarrow> letter_iteration demo_world m sf s l = Inr (s, [])"
  by (simp add: letter_iteration_def demo_letter_wavs)

lemma demo_match:
  "is_match (fst (validate_file demo_world ''outputs/B/gtts_us_01_b.wav''))"
  "\<not> is_match (fst (validate_file demo_world ''outputs/B/gtts_us_02_b.wav''))"
  by (simp_all add: demo_validate)

lemma demo_letter_B:
  "letter_iteration demo_world None 1 initial_state CHR ''B''
     = Inr (demo_after_second, [demo_after_first, demo_after_second])"
  by (simp add: letter_iteration_def demo_letter_wavs validate_letter_files_def Let_def
      file_iteration_def demo_match initial_state_def stats_of_def letter_default_def
      demo_after_first_def demo_after_second_def fun_upd_twist)

lemma demo_letters:
  "letters_loop demo_world None 1 initial_state ''ABCDEFGHIJKLMNOPQRSTUVWXYZ''
     = Inr (demo_after_second, [demo_after_first, demo_after_second])"
  by (simp add: demo_skip demo_letter_B)

lemma demo_flags: "root_exists demo_world" "model_loads demo_world" "report_writable demo_world"
  by (simp_all add: demo_world_def)

lemma demo_run:
  "validate_directory demo_world None 1 =
     Inr \<lparr> stats = Some \<lparr> total_files = 2, validated_files = 2, matched_files = 1,
                          failed_files = 1,
                          letter_stats = [CHR ''B'' \<mapsto>
                             \<lparr> total = 2, validated = 2, matched = 1, failed = 1 \<rparr>],
                          match_rate = 50 \<rparr>,
           results_after = [fst (validate_file demo_world ''outputs/B/gtts_us_01_b.wav''),
                            fst (validate_file demo_world ''outputs/B/gtts_us_02_b.wav'')],
           iteration_states = [demo_after_first, demo_after_second] \<rparr>"
  unfolding validate_directory_def demo_letters
  by (simp add: Let_def demo_flags demo_after_second_def)

subsection \<open>Counters of the batch validation\<close>

lemma stats_of_consistent:
  "consistent s \<Longrightarrow> validated (stats_of (letter_stats s) l)
      = matched (stats_of (letter_stats s) l) + failed (stats_of (letter_stats s) l)"
  by (auto simp: consistent_def stats_of_def letter_default_def split: option.splits)

lemma file_iteration_consistent:
  assumes "consistent s"
  shows "consistent (file_iteration w l s f)"
proof -
  note e = stats_of_consistent [OF assms, of l]
  from assms have g: "validated_files s = matched_files s + failed_files s"
    and m: "\<And>k e. letter_stats s k = Some e \<Longrightarrow> validated e = matched e + failed e"
    by (auto simp: consistent_def)
  show ?thesis
    unfolding consistent_def file_iteration_def Let_def
    using e g m by (auto simp: stats_of_def split: if_splits)
qed

lemma file_iteration_dom:
  "dom (letter_stats (file_iteration w l s f)) = insert l (dom (letter_stats s))"
  by (auto simp: file_iteration_def Let_def split: if_splits)

lemma files_loop_consistent:
  "consistent s \<Longrightarrow> x \<in> set (files_loop w l s fs) \<Longrightarrow> consistent x"
proof (induction fs arbitrary: s)
  case Nil
  then show ?case by simp
next
  case (Cons f fs)
  from Cons.prems(1) have c: "consistent (file_iteration w l s f)"
    by (rule file_iteration_consistent)
  from Cons.prems(2) Cons.IH [OF c] c show ?case
    by (auto simp: Let_def)
qed

lemma files_loop_dom:
  "l \<in> dom (letter_stats s) \<Longrightarrow> x \<in> set (files_loop w l s fs)
     \<Longrightarrow> dom (letter_stats x) = dom (letter_stats s)"
proof (induction fs arbitrary: s)
  case Nil
  then show ?case by simp
next
  case (Cons f fs)
  have d: "dom (letter_stats (file_iteration w l s f)) = dom (letter_stats s)"
    using Cons.prems(1) by (auto simp: file_iteration_dom)
  with Cons.prems(1) have "l \<in> dom (letter_stats (file_iteration w l s f))" by simp
  from Cons.IH [OF this] Cons.prems(2) d show ?case
    by (auto simp: Let_def)
qed

lemma letter_iteration_Some:
  assumes "letter_iteration w m sf s l = Inr (s', vis)" and "letter_wavs w l = Some fs"
  shows "\<exists>kept. validate_letter_files w l
                 (s\<lparr> total_files := total_files s + int (length fs) \<rparr>) kept = (s', vis)"
  using assms by (auto simp: letter_iteration_def Let_def split: if_splits)

lemma validate_letter_files_consistent:
  assumes "consistent s1" and "validate_letter_files w l s1 kept = (s', vis)"
  shows "consistent s' \<and> (\<forall>x \<in> set vis. consistent x)"
proof -
  let ?s2 = "s1\<lparr> letter_stats := (letter_stats s1)
                 (l \<mapsto> (stats_of (letter_stats s1) l)\<lparr> total := int (length kept) \<rparr>) \<rparr>"
  from assms(2) have vis: "vis = files_loop w l ?s2 kept" and s': "s' = last (?s2 # vis)"
    by (auto simp: validate_letter_files_def Let_def)
  have c2: "consistent ?s2"
    using assms(1) stats_of_consistent [OF assms(1), of l] by (auto simp: consistent_def)
  have all: "\<forall>x \<in> set vis. consistent x"
    unfolding vis using files_loop_consistent [OF c2] by blast
  have "s' \<in> set (?s2 # vis)" unfolding s' by (rule last_in_set) simp
  with all c2 show ?thesis by auto
qed

lemma validate_letter_files_dom:
  assumes "validate_letter_files w l s1 kept = (s', vis)"
  shows "dom (letter_stats s') = insert l (dom (letter_stats s1))"
proof -
  let ?s2 = "s1\<lparr> letter_stats := (letter_stats s1)
                 (l \<mapsto> (stats_of (letter_stats s1) l)\<lparr> total := int (length kept) \<rparr>) \<rparr>"
  from assms have vis: "vis = files_loop w l ?s2 kept" and s': "s' = last (?s2 # vis)"
    by (auto simp: validate_letter_files_def Let_def)
  have d2: "dom (letter_stats ?s2) = insert l (dom (letter_stats s1))" by auto
  have "s' \<in> set (?s2 # vis)" unfolding s' by (rule last_in_set) simp
  then have "dom (letter_stats s') = dom (letter_stats ?s2)"
    using files_loop_dom [of l ?s2 s' w kept] d2 vis by auto
  with d2 show ?thesis by simp
qed

lemma letter_iteration_consistent:
  assumes "consistent s" and "letter_iteration w m sf s l = Inr (s', vis)"
  shows "consistent s' \<and> (\<forall>x \<in> set vis. consistent x)"
proof (cases "letter_wavs w l")
  case None
  with assms show ?thesis by (simp add: letter_iteration_def)
next
  case (Some fs)
  from letter_iteration_Some [OF assms(2) Some] obtain kept where
    r: "validate_letter_files w l (s\<lparr> total_files := total_files s + int (length fs) \<rparr>) kept
          = (s', vis)" by blast
  have "consistent (s\<lparr> total_files := total_files s + int (length fs) \<rparr>)"
    using assms(1) by (simp add: consistent_def)
  from validate_letter_files_consistent [OF this r] show ?thesis .
qed

lemma letter_iteration_dom:
  assumes "letter_iteration w m sf s l = Inr (s', vis)"
  shows "dom (letter_stats s) \<subseteq> dom (letter_stats s')
         \<and> (letter_wavs w l \<noteq> None \<longrightarrow> l \<in> dom (letter_stats s'))"
proof (cases "letter_wavs w l")
  case None
  with assms show ?thesis by (simp add: letter_iteration_def)
next
  case (Some fs)
  from letter_iteration_Some [OF assms Some] obtain kept where
    r: "validate_letter_files w l (s\<lparr> total_files := total_files s + int (length fs) \<rparr>) kept
          = (s', vis)" by blast
  from validate_letter_files_dom [OF r] show ?thesis by auto
qed

lemma letters_loop_consistent:
  "consistent s \<Longrightarrow> letters_loop w m sf s ls = Inr (s', vis)
     \<Longrightarrow> consistent s' \<and> (\<forall>x \<in> set vis. consistent x)"
proof (induction ls arbitrary: s s' vis)
  case Nil
  then show ?case by simp
next
  case (Cons l ls)
  from Cons.prems(2) obtain s1 v1 v2 where
    a: "letter_iteration w m sf s l = Inr (s1, v1)"
    and b: "letters_loop w m sf s1 ls = Inr (s', v2)" and v: "vis = v1 @ v2"
    by (auto split: sum.splits prod.splits)
  from letter_iteration_consistent [OF Cons.prems(1) a]
  have c1: "consistent s1" and a1: "\<forall>x \<in> set v1. consistent x" by auto
  from Cons.IH [OF c1 b] a1 v show ?case by auto
qed

lemma letters_loop_dom:
  "letters_loop w m sf s ls = Inr (s', vis)
     \<Longrightarrow> dom (letter_stats s) \<subseteq> dom (letter_stats s')
         \<and> (\<forall>l \<in> set ls. letter_wavs w l \<noteq> None \<longrightarrow> l \<in> dom (letter_stats s'))"
proof (induction ls arbitrary: s s' vis)
  case Nil
  then show ?case by simp
next
  case (Cons l ls)
  from Cons.prems obtain s1 v1 v2 where
    a: "letter_iteration w m sf s l = Inr (s1, v1)"
    and b: "letters_loop w m sf s1 ls = Inr (s', v2)"
    by (auto split: sum.splits prod.splits)
  from letter_iteration_dom [OF a] Cons.IH [OF b] show ?case by auto
qed

lemma initial_consistent: "consistent initial_state"
  by (simp add: consistent_def initial_state_def)

text \<open>
  Claim C10. When \<^verbatim>\<open>validate_directory\<close> returns statistics, the global counters satisfy
  \<open>validated_files = matched_files + failed_files\<close>; every entry of the per-letter
  statistics satisfies \<open>validated = matched + failed\<close>, and every letter whose directory
  exists has an entry; the report built from the statistics carries the same counters and
  the same per-letter entries; and both equalities hold in the state reached after each
  per-file iteration.
\<close>

theorem counters_add_up:
  assumes "validate_directory w m sf = Inr out"
  shows "(\<forall>st. stats out = Some st \<longrightarrow>
            validated_files st = matched_files st + failed_files st
            \<and> (\<forall>l e. letter_stats st l = Some e \<longrightarrow> validated e = matched e + failed e)
            \<and> (\<forall>l \<in> set ''ABCDEFGHIJKLMNOPQRSTUVWXYZ''.
                  letter_wavs w l \<noteq> None \<longrightarrow> letter_stats st l \<noteq> None)
            \<and> validated_files (generate_report up st (results_after out)) = validated_files st
            \<and> matched_files (generate_report up st (results_after out)) = matched_files st
            \<and> failed_files (generate_report up st (results_after out)) = failed_files st
            \<and> letter_stats (generate_report up st (results_after out)) = letter_stats st)
         \<and> (\<forall>s \<in> set (iteration_states out).
               validated_files s = matched_files s + failed_files s
               \<and> (\<forall>l e. letter_stats s l = Some e \<longrightarrow> validated e = matched e + failed e))"
proof (cases "root_exists w")
  case False
  with assms have "out = \<lparr> stats = None, results_after = [], iteration_states = [] \<rparr>"
    by (simp add: validate_directory_def)
  then show ?thesis by simp
next
  case True
  with assms obtain s vis where
    run: "letters_loop w m sf initial_state ''ABCDEFGHIJKLMNOPQRSTUVWXYZ'' = Inr (s, vis)"
    and st: "\<exists>r. stats out = Some \<lparr> total_files = total_files s,
               validated_files = validated_files s, matched_files = matched_files s,
               failed_files = failed_files s, letter_stats = letter_stats s,
               match_rate = r \<rparr>"
    and vis: "iteration_states out = vis"
    by (auto simp: validate_directory_def Let_def simp del: letters_loop.simps
        split: sum.splits prod.splits)
  from letters_loop_consistent [OF initial_consistent run]
  have cs: "consistent s" and call: "\<forall>x \<in> set vis. consistent x" by auto
  from letters_loop_dom [OF run]
  have dm: "\<forall>l \<in> set ''ABCDEFGHIJKLMNOPQRSTUVWXYZ''.
               letter_wavs w l \<noteq> None \<longrightarrow> l \<in> dom (letter_stats s)" by blast
  have rep: "validated_files (generate_report up x rs) = validated_files x
      \<and> matched_files (generate_report up x rs) = matched_files x
      \<and> failed_files (generate_report up x rs) = failed_files x
      \<and> letter_stats (generate_report up x rs) = letter_stats x" for x rs
    by (simp add: generate_report_def Let_def)
  have final: "validated_files x = matched_files x + failed_files x
            \<and> (\<forall>l e. letter_stats x l = Some e \<longrightarrow> validated e = matched e + failed e)
            \<and> (\<forall>l \<in> set ''ABCDEFGHIJKLMNOPQRSTUVWXYZ''.
                  letter_wavs w l \<noteq> None \<longrightarrow> letter_stats x l \<noteq> None)"
    if "stats out = Some x" for x
  proof -
    from st that obtain r where x: "x = \<lparr> total_files = total_files s,
               validated_files = validated_files s, matched_files = matched_files s,
               failed_files = failed_files s, letter_stats = letter_stats s,
               match_rate = r \<rparr>" by auto
    from cs dm show ?thesis unfolding x consistent_def by (auto simp: dom_def)
  qed
  from call have iter: "\<forall>s \<in> set (iteration_states out).
               validated_files s = matched_files s + failed_files s
               \<and> (\<forall>l e. letter_stats s l = Some e \<longrightarrow> validated e = matched e + failed e)"
    unfolding vis consistent_def by blast
  from final rep iter show ?thesis by blast
qed

text \<open>The sample run: two files of letter B validated, one matched and one failed.\<close>

theorem counters_add_up_witness:
  "\<exists>out st e.
      validate_directory demo_world None 1 = Inr out \<and> stats out = Some st
      \<and> validated_files st = 2 \<and> validated_files st = matched_files st + failed_files st
      \<and> letter_wavs demo_world CHR ''B'' \<noteq> None
      \<and> letter_stats st CHR ''B'' = Some e \<and> validated e = matched e + failed e
      \<and> validated_files (generate_report ties_down st (results_after out)) = 2
      \<and> demo_after_first \<in> set (iteration_states out)
      \<and> validated_files demo_after_first
          = matched_files demo_after_first + failed_files demo_after_first"
proof -
  let ?st = "\<lparr> total_files = 2, validated_files = 2, matched_files = 1, failed_files = 1,
               letter_stats = [CHR ''B'' \<mapsto>
                  \<lparr> total = 2, validated = 2, matched = 1, failed = 1 \<rparr>],
               match_rate = 50 \<rparr>"
  let ?out = "\<lparr> stats = Some ?st,
           results_after = [fst (validate_file demo_world ''outputs/B/gtts_us_01_b.wav''),
                            fst (validate_file demo_world ''outputs/B/gtts_us_02_b.wav'')],
           iteration_states = [demo_after_first, demo_after_second] \<rparr>"
  note t = counters_add_up [OF demo_run, of ties_down]
  have st: "stats ?out = Some ?st" by simp
  have mem: "demo_after_first \<in> set (iteration_states ?out)" by simp
  have dir: "letter_wavs demo_world CHR ''B'' \<noteq> None" by (simp add: demo_letter_wavs)
  have e: "letter_stats ?st CHR ''B'' = Some \<lparr> total = 2, validated = 2, matched = 1, failed = 1 \<rparr>"
    by simp
  from t st have a: "validated_files ?st = matched_files ?st + failed_files ?st"
    and r: "validated_files (generate_report ties_down ?st (results_after ?out))
              = validated_files ?st"
    by blast+
  from t mem have i: "validated_files demo_after_first
          = matched_files demo_after_first + failed_files demo_after_first" by blast
  have v: "validated_files ?st = 2" by simp
  show ?thesis
    using demo_run st v a dir e r i mem
    by (intro exI [of _ ?out] exI [of _ ?st]
        exI [of _ "\<lparr> total = 2, validated = 2, matched = 1, failed = 1 \<rparr>"]) simp
qed

subsection \<open>Exit status\<close>

text \<open>
  Claim C4, as amended. The quality checker's \<^verbatim>\<open>main\<close> exits with status 1 when the audio
  libraries are unavailable, when the report cannot be written, and when at least one
  decoded clip carries an issue tag; it exits with 0 when the directory holds WAV files
  and no decoded clip carries an issue tag. The validator's \<^verbatim>\<open>main\<close> sets no exit status:
  the process ends with status 0 when the model fails to load, when the output directory
  is missing, and whenever the run returns and the report is written, whatever the number
  of mismatches; it ends with 1 only when an exception leaves \<^verbatim>\<open>main\<close>.
\<close>

theorem exit_status:
  "(\<not> libs_available qw \<longrightarrow> quality_main qw = 1)
   \<and> (libs_available qw \<and> base_dir_exists qw \<and> wav_clips qw \<noteq> []
        \<and> \<not> report_file_writable qw \<longrightarrow> quality_main qw = 1)
   \<and> (libs_available qw \<and> base_dir_exists qw \<and> wav_clips qw \<noteq> []
        \<and> report_file_writable qw \<longrightarrow>
          quality_main qw =
            (if \<exists>f \<in> set (wav_clips qw). \<exists>r. check_file f = Some r \<and> issues r \<noteq> []
             then 1 else 0))
   \<and> (\<not> model_loads w \<longrightarrow> validator_main w m sf = 0)
   \<and> (model_loads w \<and> \<not> root_exists w \<longrightarrow> validator_main w m sf = 0)
   \<and> (\<forall>out. validate_directory w m sf = Inr out \<and> report_writable w
          \<longrightarrow> validator_main w m sf = 0)
   \<and> (\<forall>e. model_loads w \<and> validate_directory w m sf = Inl e \<longrightarrow> validator_main w m sf = 1)"
proof (intro conjI impI allI)
  show "quality_main qw = 1" if "\<not> libs_available qw"
    using that by (simp add: quality_main_def)
  show "quality_main qw = 1"
    if "libs_available qw \<and> base_dir_exists qw \<and> wav_clips qw \<noteq> [] \<and> \<not> report_file_writable qw"
    using that
    by (simp add: quality_main_def check_all_files_def Let_def split: prod.splits)
  show "quality_main qw =
      (if \<exists>f \<in> set (wav_clips qw). \<exists>r. check_file f = Some r \<and> issues r \<noteq> [] then 1 else 0)"
    if "libs_available qw \<and> base_dir_exists qw \<and> wav_clips qw \<noteq> [] \<and> report_file_writable qw"
    using that quality_main_analysed [of qw] by blast
  show "validator_main w m sf = 0" if "\<not> model_loads w"
    using that by (simp add: validator_main_def)
  show "validator_main w m sf = 0" if "model_loads w \<and> \<not> root_exists w"
    using that by (simp add: validator_main_def validate_directory_def)
  show "validator_main w m sf = 0"
    if "validate_directory w m sf = Inr out \<and> report_writable w" for out
    using that by (simp add: validator_main_def split: option.splits)
  show "validator_main w m sf = 1" if "model_loads w \<and> validate_directory w m sf = Inl e" for e
    using that by (simp add: validator_main_def)
qed

text \<open>A directory whose only decodable clip is clean, and the sample run of the
  validator with and without a model.\<close>

theorem exit_status_witness:
  "libs_available demo_quality_world \<and> base_dir_exists demo_quality_world
   \<and> wav_clips demo_quality_world \<noteq> [] \<and> report_file_writable demo_quality_world
   \<and> quality_main demo_quality_world = 0
   \<and> \<not> libs_available (demo_quality_world\<lparr> libs_available := False \<rparr>)
   \<and> quality_main (demo_quality_world\<lparr> libs_available := False \<rparr>) = 1
   \<and> \<not> model_loads (demo_world\<lparr> model_loads := False \<rparr>)
   \<and> validator_main (demo_world\<lparr> model_loads := False \<rparr>) None 1 = 0
   \<and> report_writable demo_world
   \<and> validator_main demo_world None 1 = 0"
proof -
  let ?c = "\<lparr> audio = Arr1 [0.5, - 0.5], sr = 2, tie_up = ties_down \<rparr>"
  have h: "libs_available demo_quality_world" "base_dir_exists demo_quality_world"
    "wav_clips demo_quality_world \<noteq> []" "report_file_writable demo_quality_world"
    by (simp_all add: demo_quality_world_def)
  have q: "\<not> clip_rms ?c < min_rms"
    by (simp add: clip_rms_quiet_iff np_mean_def power2_eq_square)
  have clean: "\<exists>r. check_file (Some ?c) = Some r \<and> issues r = []"
  proof -
    obtain r where r: "check_file (Some ?c) = Some r"
      using check_file_defined [of ?c] by auto
    have "issues r = []"
      unfolding check_file_fields(1) [OF r] using q
      by (simp add: detect_issues_def clip_metrics min_duration_def max_duration_def
          clipping_threshold_def silence_threshold_def silence_ratio_threshold_def)
    with r show ?thesis by blast
  qed
  have none: "\<not> (\<exists>f \<in> set (wav_clips demo_quality_world).
                  \<exists>r. check_file f = Some r \<and> issues r \<noteq> [])"
    using clean by (auto simp: demo_quality_world_def check_file_def)
  have l: "\<not> libs_available (demo_quality_world\<lparr> libs_available := False \<rparr>)" by simp
  have m: "\<not> model_loads (demo_world\<lparr> model_loads := False \<rparr>)" by simp
  note t1 = exit_status [of demo_quality_world demo_world None 1]
  note t2 = exit_status [of "demo_quality_world\<lparr> libs_available := False \<rparr>"
                            "demo_world\<lparr> model_loads := False \<rparr>" None 1]
  from t1 h none have a: "quality_main demo_quality_world = 0" by simp
  from t1 demo_run demo_flags(3) have b: "validator_main demo_world None 1 = 0" by blast
  from t2 l have c: "quality_main (demo_quality_world\<lparr> libs_available := False \<rparr>) = 1"
    by blast
  from t2 m have d: "validator_main (demo_world\<lparr> model_loads := False \<rparr>) None 1 = 0"
    by blast
  from h a l c m d demo_flags(3) b show ?thesis by blast
qed

text \<open>
  The claim as worded fails on the validator: without a model the process ends with
  status 0, and the sample run, which has one failed file, ends with status 0 as well.
\<close>

theorem validator_exit_counterexample:
  "validator_main (demo_world\<lparr> model_loads := False \<rparr>) None 1 = 0
   \<and> map_sum id (map_option failed_files \<circ> stats) (validate_directory demo_world None 1)
       = Inr (Some 1)
   \<and> validator_main demo_world None 1 = 0"
  by (simp add: validator_main_def demo_run demo_flags)

end
